theory Spec2Isabelle
  imports Complex_Main "HOL-Library.AList"
begin

section \<open>Gaussian-process examples: a shallow embedding\<close>

text \<open>
  The two scripts \<^verbatim>\<open>basic_regression2.py\<close> and \<^verbatim>\<open>basic_dgp.py\<close> are embedded function by
  function; a function that may raise returns \<open>py_error + result\<close>. Array elements are of an
  arbitrary type \<open>'a\<close> carrying only the operations a function uses (\<open>+\<close>, \<open>*\<close>, \<open>-\<close>, \<open>0\<close>,
  \<open>1\<close>), so the theorems about them hold for whatever arithmetic the elements have; only
  the functions that write numbers out (\<^verbatim>\<open>create_model\<close>, \<^verbatim>\<open>train\<close>, \<^verbatim>\<open>get_datasets\<close>) take
  real numbers for the double-precision numbers of the scripts. The numerical library
  routines (\<^verbatim>\<open>softplus\<close>, \<^verbatim>\<open>cholesky\<close>, \<^verbatim>\<open>@\<close>, \<^verbatim>\<open>random.normal\<close>, \<^verbatim>\<open>random.split\<close>, automatic
  differentiation, the optimizer) and the modules \<^verbatim>\<open>kernels\<close>, \<^verbatim>\<open>distributions\<close>,
  \<^verbatim>\<open>gaussian_processes\<close> and \<^verbatim>\<open>inducing_variables\<close>, which are not among the sources, are
  parameters of the functions that call them. JAX arrays are immutable values, so an
  array is a HOL value, and \<^verbatim>\<open>jax.jit\<close> does not change what a pure function returns.
\<close>

subsection \<open>Python errors\<close>

datatype py_error =
  TypeError string
  | ValueError string
  | IndexError string
  | AttributeError string
  | KeyError string

text \<open>Sequencing of fallible steps: the first error raised is the result.\<close>

definition bind :: "py_error + 'a \<Rightarrow> ('a \<Rightarrow> py_error + 'b) \<Rightarrow> py_error + 'b" where
  "bind m f = (case m of Inl e \<Rightarrow> Inl e | Inr v \<Rightarrow> f v)"

subsection \<open>Matrices and \<^verbatim>\<open>_diag_shift\<close>\<close>

text \<open>
  A two-dimensional array is the list of its rows. \<open>is_matrix r c m\<close> says that \<open>m\<close> has
  shape \<open>(r, c)\<close>.
\<close>

type_synonym 'a matrix = "'a list list"

definition is_matrix :: "nat \<Rightarrow> nat \<Rightarrow> 'a matrix \<Rightarrow> bool" where
  "is_matrix r c m = (length m = r \<and> list_all (\<lambda>row. length row = c) m)"

definition square :: "nat \<Rightarrow> 'a matrix \<Rightarrow> bool" where
  "square n m = is_matrix n n m"

text \<open>\<^verbatim>\<open>mat.shape[-1]\<close>: the number of columns.\<close>

definition shape_last :: "'a matrix \<Rightarrow> nat" where
  "shape_last m = (case m of [] \<Rightarrow> 0 | row # _ \<Rightarrow> length row)"

text \<open>
  \<^verbatim>\<open>jnp.diag_indices(n, ndim)\<close> is a tuple of \<open>ndim\<close> copies of \<^verbatim>\<open>arange(n)\<close>. For a matrix
  \<^verbatim>\<open>len(mat.shape)\<close> is 2, and the tuple is a pair.
\<close>

definition diag_indices :: "nat \<Rightarrow> nat list \<times> nat list" where
  "diag_indices n = ([0..<n], [0..<n])"

text \<open>\<^verbatim>\<open>jnp.diag(mat)\<close> of a two-dimensional array: its main diagonal.\<close>

definition diag :: "'a matrix \<Rightarrow> 'a list" where
  "diag m = map (\<lambda>i. m ! i ! i) [0..<min (length m) (shape_last m)]"

text \<open>\<^verbatim>\<open>vec + val\<close> with a scalar \<open>val\<close>: the scalar is added to every element.\<close>

definition add_scalar :: "'a::plus list \<Rightarrow> 'a \<Rightarrow> 'a list" where
  "add_scalar vec val = map (\<lambda>d. d + val) vec"

text \<open>
  Broadcasting a one-dimensional array to length \<open>n\<close>: it has that length already, or it
  has length 1 and its element is repeated.
\<close>

definition broadcast_to :: "nat \<Rightarrow> 'b list \<Rightarrow> 'b list option" where
  "broadcast_to n xs =
     (if length xs = n then Some xs
      else (case xs of [x] \<Rightarrow> Some (replicate n x) | _ \<Rightarrow> None))"

text \<open>
  One scattered write \<^verbatim>\<open>x[i, j] = v\<close>. A position outside the array is dropped, as JAX's
  scatter does (\<open>xs[i := v]\<close> leaves \<open>xs\<close> as it is when \<open>i\<close> is out of range).
\<close>

definition set_entry :: "nat \<times> nat \<times> 'a \<Rightarrow> 'a matrix \<Rightarrow> 'a matrix" where
  "set_entry w m = (case w of (i, j, v) \<Rightarrow> m[i := (m ! i)[j := v]])"

text \<open>
  \<^verbatim>\<open>ops.index_update(x, (rows, cols), y)\<close>: the pure form of \<^verbatim>\<open>x[rows, cols] = y\<close>. The index
  arrays are broadcast against each other and \<open>y\<close> against them; the result is a new
  array, \<open>x\<close> itself is a value and stays what it is.
\<close>

definition index_update :: "'a matrix \<Rightarrow> nat list \<times> nat list \<Rightarrow> 'a list \<Rightarrow> py_error + 'a matrix" where
  "index_update x idx y =
     (case idx of (rows, cols) \<Rightarrow>
        (let n = (if length rows = 1 then length cols else length rows) in
         case (broadcast_to n rows, broadcast_to n cols, broadcast_to n y) of
           (Some rs, Some cs, Some vs) \<Rightarrow> Inr (fold set_entry (zip rs (zip cs vs)) x)
         | _ \<Rightarrow> Inl (ValueError ''Incompatible shapes for broadcasting'')))"

text \<open>
  \<^verbatim>\<open>
  def _diag_shift(mat, val):
      return ops.index_update(
          mat,
          jnp.diag_indices(mat.shape[-1], len(mat.shape)),
          jnp.diag(mat) + val)
  \<close>
\<close>

definition diag_shift :: "'a::plus matrix \<Rightarrow> 'a \<Rightarrow> py_error + 'a matrix" where
  "diag_shift mat val =
     index_update mat (diag_indices (shape_last mat)) (add_scalar (diag mat) val)"

subsection \<open>N-dimensional arrays\<close>

text \<open>
  An array is its shape and its elements in row-major order; \<open>wf_array\<close> says that there
  are as many elements as the shape asks for.
\<close>

record 'a ndarray =
  shape :: "nat list"
  data :: "'a list"

definition wf_array :: "'a ndarray \<Rightarrow> bool" where
  "wf_array x = (length (data x) = prod_list (shape x))"

text \<open>\<^verbatim>\<open>jnp.zeros(shape)\<close>, \<^verbatim>\<open>jnp.ones(shape)\<close>.\<close>

definition full :: "nat list \<Rightarrow> 'a \<Rightarrow> 'a ndarray" where
  "full shp v = \<lparr>shape = shp, data = replicate (prod_list shp) v\<rparr>"

definition zeros :: "nat list \<Rightarrow> 'a::zero ndarray" where
  "zeros shp = full shp 0"

definition ones :: "nat list \<Rightarrow> 'a::one ndarray" where
  "ones shp = full shp 1"

text \<open>
  \<^verbatim>\<open>x[..., 0]\<close>: the first element along the last axis. A zero-dimensional array has no
  axis to index, and an axis of size 0 has no element 0.
\<close>

definition getitem_last0 :: "'a ndarray \<Rightarrow> py_error + 'a ndarray" where
  "getitem_last0 x =
     (case rev (shape x) of
        [] \<Rightarrow> Inl (IndexError ''too many indices for array'')
      | d # _ \<Rightarrow>
          if d = 0 then Inl (IndexError ''index 0 is out of bounds for axis with size 0'')
          else Inr \<lparr>shape = butlast (shape x),
                    data = map (\<lambda>k. data x ! (k * d)) [0..<prod_list (butlast (shape x))]\<rparr>)"

text \<open>\<^verbatim>\<open>x[..., None]\<close>: a trailing axis of size 1; the elements are the same.\<close>

definition expand_last :: "'a ndarray \<Rightarrow> 'a ndarray" where
  "expand_last x = \<lparr>shape = shape x @ [1], data = data x\<rparr>"

text \<open>An elementwise function (\<^verbatim>\<open>jax.nn.softplus(x)\<close>, \<^verbatim>\<open>-x\<close>).\<close>

definition map_array :: "('a \<Rightarrow> 'b) \<Rightarrow> 'a ndarray \<Rightarrow> 'b ndarray" where
  "map_array f x = \<lparr>shape = shape x, data = map f (data x)\<rparr>"

text \<open>
  \<^verbatim>\<open>a * b\<close> for \<open>b\<close> of shape \<open>(1,)\<close>: broadcasting repeats the one element of \<open>b\<close>, and gives a
  zero-dimensional \<open>a\<close> the shape \<open>(1,)\<close>.
\<close>

definition times_singleton :: "'a::times ndarray \<Rightarrow> 'a ndarray \<Rightarrow> 'a ndarray" where
  "times_singleton a b =
     \<lparr>shape = (if shape a = [] then [1] else shape a),
      data = map (\<lambda>v. v * hd (data b)) (data a)\<rparr>"

subsection \<open>Parameters of a module\<close>

text \<open>
  \<^verbatim>\<open>self.param(name, shape, initializer)\<close> evaluated with stored parameters: the stored
  array of that name, which must have the shape asked for. (The initializer gives the
  value that is stored when the parameters are created.) The stored value is not
  constrained in any way.
\<close>

type_synonym 'a params = "(string \<times> 'a ndarray) list"

definition param :: "'a params \<Rightarrow> string \<Rightarrow> nat list \<Rightarrow> py_error + 'a ndarray" where
  "param ps name shp =
     (case map_of ps name of
        None \<Rightarrow> Inl (ValueError (''No parameter named '' @ name))
      | Some v \<Rightarrow>
          if shape v = shp \<and> wf_array v then Inr v
          else Inl (ValueError (''Existing shape differs from requested shape for '' @ name)))"

text \<open>A parameter of shape \<open>()\<close> is a scalar: its one element.\<close>

definition param_scalar :: "'a params \<Rightarrow> string \<Rightarrow> py_error + 'a" where
  "param_scalar ps name = bind (param ps name []) (\<lambda>v. Inr (hd (data v)))"

subsection \<open>The distribution classes\<close>

text \<open>
  Modelled from the spec: the module \<^verbatim>\<open>distributions\<close> is not among the sources. Its three
  classes are dataclasses; the scripts build them as
  \<^verbatim>\<open>MultivariateNormalDiag(mean=..., scale_diag=...)\<close>,
  \<^verbatim>\<open>MultivariateNormalTriL(mean, scale)\<close> (read back as \<^verbatim>\<open>pf.mean\<close>, \<^verbatim>\<open>pf.scale\<close>) and
  \<^verbatim>\<open>MultivariateNormalFull(mean, covariance)\<close>.
\<close>

datatype 'a mvn_diag = MultivariateNormalDiag (mean_diag: "'a ndarray") (scale_diag: "'a ndarray")

datatype 'a mvn_tril = MultivariateNormalTriL (mean: "'a ndarray") (scale: "'a matrix")

datatype 'a mvn_full = MultivariateNormalFull (mean_full: "'a ndarray") (covariance: "'a matrix")

subsection \<open>\<^verbatim>\<open>GaussianProcessLayer\<close>\<close>

text \<open>
  \<^verbatim>\<open>
  def apply(self, index_points, kernel_fun, mean_fun=None, jitter=1e-4):
      if mean_fun is None:
          mean_fun = lambda x: jnp.zeros(x.shape[:-1], dtype=index_points.dtype)
      mean = mean_fun(index_points)
      cov = kernel_fun(index_points)
      cov = _diag_shift(cov, jitter)
      return distributions.MultivariateNormalTriL(mean, jnp.linalg.cholesky(cov))
  \<close>
  The two callables may raise. \<^verbatim>\<open>jnp.linalg.cholesky\<close> is a parameter; on a matrix that is
  not positive definite it returns not-a-number entries and does not raise. The caller
  that leaves \<open>jitter\<close> out passes \<^verbatim>\<open>1e-4\<close>.
\<close>

definition GaussianProcessLayer_apply ::
  "('a::{plus,zero} matrix \<Rightarrow> 'a matrix) \<Rightarrow> 'a ndarray \<Rightarrow> ('a ndarray \<Rightarrow> py_error + 'a matrix) \<Rightarrow>
   ('a ndarray \<Rightarrow> py_error + 'a ndarray) option \<Rightarrow> 'a \<Rightarrow> py_error + 'a mvn_tril" where
  "GaussianProcessLayer_apply cholesky index_points kernel_fun mean_fun jitter =
     (let mean_fun' = (case mean_fun of
                         None \<Rightarrow> (\<lambda>x. Inr (zeros (butlast (shape x))))
                       | Some f \<Rightarrow> f)
      in bind (mean_fun' index_points) (\<lambda>mean.
         bind (kernel_fun index_points) (\<lambda>cov.
         bind (diag_shift cov jitter) (\<lambda>cov.
         Inr (MultivariateNormalTriL mean (cholesky cov))))))"

subsection \<open>\<^verbatim>\<open>MarginalObservationModel\<close> and \<^verbatim>\<open>LikelihoodProvider\<close>\<close>

text \<open>\<^verbatim>\<open>mat.T\<close> of a matrix.\<close>

definition transpose_matrix :: "'a matrix \<Rightarrow> 'a matrix" where
  "transpose_matrix m = map (\<lambda>j. map (\<lambda>row. row ! j) m) [0..<shape_last m]"

text \<open>
  \<^verbatim>\<open>
  def apply(self, pf):
      obs_noise_scale = jax.nn.softplus(
          self.param('observation_noise_scale', (), jax.nn.initializers.ones))
      covariance = pf.scale @ pf.scale.T
      covariance = _diag_shift(covariance, obs_noise_scale**2)
      return distributions.MultivariateNormalFull(pf.mean, covariance)
  \<close>
  \<^verbatim>\<open>softplus\<close> and the matrix product \<^verbatim>\<open>@\<close> are parameters; \<^verbatim>\<open>x**2\<close> is \<open>x * x\<close>. The
  parameter has shape \<open>()\<close>, so the noise scale is a scalar.
\<close>

definition MarginalObservationModel_apply ::
  "('a::{plus,times} \<Rightarrow> 'a) \<Rightarrow> ('a matrix \<Rightarrow> 'a matrix \<Rightarrow> 'a matrix) \<Rightarrow> 'a params \<Rightarrow>
   'a mvn_tril \<Rightarrow> py_error + 'a mvn_full" where
  "MarginalObservationModel_apply softplus matmul ps pf =
     bind (param_scalar ps ''observation_noise_scale'') (\<lambda>p.
       let obs_noise_scale = softplus p;
           covariance = matmul (scale pf) (transpose_matrix (scale pf))
       in bind (diag_shift covariance (obs_noise_scale * obs_noise_scale)) (\<lambda>covariance.
          Inr (MultivariateNormalFull (mean pf) covariance)))"

text \<open>
  \<^verbatim>\<open>
  def apply(self, x):
      obs_noise_scale = jax.nn.softplus(
          self.param('observation_noise_scale', (1, ),
                     lambda key, shape: 1.0e-2*jnp.ones([1])))
      return distributions.MultivariateNormalDiag(
          mean=x[..., 0], scale_diag=jnp.ones(x.shape[:-1])*obs_noise_scale)
  \<close>
\<close>

definition LikelihoodProvider_apply ::
  "('a::{one,times} \<Rightarrow> 'a) \<Rightarrow> 'a params \<Rightarrow> 'a ndarray \<Rightarrow> py_error + 'a mvn_diag" where
  "LikelihoodProvider_apply softplus ps x =
     bind (param ps ''observation_noise_scale'' [1]) (\<lambda>p.
       let obs_noise_scale = map_array softplus p
       in bind (getitem_last0 x) (\<lambda>mean.
          Inr (MultivariateNormalDiag mean
                 (times_singleton (ones (butlast (shape x))) obs_noise_scale))))"

text \<open>The matrix product in exact arithmetic, one instance of the parameter \<open>matmul\<close>.\<close>

definition matmul_exact :: "'a::semiring_0 matrix \<Rightarrow> 'a matrix \<Rightarrow> 'a matrix" where
  "matmul_exact A B =
     map (\<lambda>row. map (\<lambda>j. sum_list (map2 (*) row (map (\<lambda>r. r ! j) B))) [0..<shape_last B]) A"

subsection \<open>\<^verbatim>\<open>MeanShiftDistribution\<close>\<close>

text \<open>
  The argument \<open>p\<close> is any Python object: its class, its fields (\<open>attrs\<close>) in order, and whether it is
  a dataclass (and so has the method \<^verbatim>\<open>replace\<close>). \<^verbatim>\<open>p.mean + shift\<close> is the parameter
  \<open>add\<close>, which raises when the two do not broadcast.
  \<^verbatim>\<open>
  def apply(self, p, shift):
      try:
          return p.replace(mean=p.mean + shift)
      except AttributeError:
          raise AttributeError('{} must have a `mean` field.'.format(p))
  \<close>
  \<^verbatim>\<open>p.replace\<close> is looked up first, then \<^verbatim>\<open>p.mean\<close>; either lookup raises
  \<^verbatim>\<open>AttributeError\<close> when the attribute is missing, and the handler raises it again with
  its own message (in which the text form of \<open>p\<close> is shortened to the class name).
\<close>

record 'v py_object =
  class_name :: string
  attrs :: "(string \<times> 'v) list"
  dataclass :: bool

definition getattr :: "'v py_object \<Rightarrow> string \<Rightarrow> py_error + 'v" where
  "getattr p name =
     (case map_of (attrs p) name of
        None \<Rightarrow> Inl (AttributeError (class_name p @ '' object has no attribute '' @ name))
      | Some v \<Rightarrow> Inr v)"

definition replace_field :: "'v py_object \<Rightarrow> string \<Rightarrow> 'v \<Rightarrow> 'v py_object" where
  "replace_field p name v = p\<lparr>attrs := map (\<lambda>(k, w). if k = name then (k, v) else (k, w)) (attrs p)\<rparr>"

definition MeanShiftDistribution_apply ::
  "('v \<Rightarrow> 'v \<Rightarrow> py_error + 'v) \<Rightarrow> 'v py_object \<Rightarrow> 'v \<Rightarrow> py_error + 'v py_object" where
  "MeanShiftDistribution_apply add p shift =
     (case (if dataclass p
            then bind (getattr p ''mean'') (\<lambda>m. bind (add m shift) (\<lambda>m'.
                   Inr (replace_field p ''mean'' m')))
            else Inl (AttributeError (class_name p @ '' object has no attribute replace''))) of
        Inl (AttributeError _) \<Rightarrow> Inl (AttributeError (class_name p @ '' must have a `mean` field.''))
      | r \<Rightarrow> r)"

subsection \<open>\<^verbatim>\<open>DeepGPModel\<close>\<close>

text \<open>
  The modules that \<^verbatim>\<open>DeepGPModel.apply\<close> calls and that are not among the sources, as they
  are once the model's parameters are given: the three providers, the methods
  \<^verbatim>\<open>marginal()\<close> and \<^verbatim>\<open>prior_kl()\<close> of what \<^verbatim>\<open>SVGPProvider\<close> returns, \<^verbatim>\<open>sample(key, shape)\<close>
  of a marginal, \<^verbatim>\<open>log_prob\<close> of the likelihood, \<^verbatim>\<open>softplus\<close>, and the parameters stored for
  a submodule name. Each of them may raise. \<open>'kern\<close>, \<open>'ind\<close>, \<open>'vgp\<close> and \<open>'dist\<close> are the
  types of the objects they return, \<open>'key\<close> is the type of PRNG keys and \<open>'c\<close> the type
  of keyword-argument values.
\<close>

record ('a, 'key, 'kern, 'ind, 'vgp, 'dist, 'c) modules =
  RBFKernelProvider :: "'a ndarray \<Rightarrow> string \<Rightarrow> (string \<times> 'c) list \<Rightarrow> py_error + 'kern"
  InducingPointsProvider ::
    "'a ndarray \<Rightarrow> 'kern \<Rightarrow> string \<Rightarrow> int \<Rightarrow> bool \<Rightarrow> (string \<times> 'c) list \<Rightarrow> py_error + 'ind"
  SVGPProvider ::
    "'a ndarray \<Rightarrow> ('a ndarray \<Rightarrow> py_error + 'a ndarray) \<Rightarrow> 'kern \<Rightarrow> 'ind \<Rightarrow> string \<Rightarrow> py_error + 'vgp"
  marginal :: "'vgp \<Rightarrow> py_error + 'dist"
  sample :: "'dist \<Rightarrow> 'key \<Rightarrow> nat list \<Rightarrow> py_error + 'a ndarray"
  prior_kl :: "'vgp \<Rightarrow> py_error + 'a ndarray"
  log_prob :: "'a mvn_diag \<Rightarrow> 'a ndarray \<Rightarrow> py_error + 'a ndarray"
  softplus :: "'a \<Rightarrow> 'a"
  module_params :: "string \<Rightarrow> 'a params"

text \<open>The command-line flags.\<close>

record 'a flags =
  learning_rate :: 'a
  num_epochs :: int
  plot :: bool
  num_inducing_points :: int

text \<open>\<^verbatim>\<open>'{}'.format(n)\<close> for a natural number: its decimal digits.\<close>

fun str_nat :: "nat \<Rightarrow> string" where
  "str_nat n = (if n < 10 then [''0123456789'' ! n] else str_nat (n div 10) @ [''0123456789'' ! (n mod 10)])"

text \<open>\<^verbatim>\<open>kwargs.get(key, {})\<close>.\<close>

definition kwargs_get :: "(string \<times> (string \<times> 'c) list) list \<Rightarrow> string \<Rightarrow> (string \<times> 'c) list" where
  "kwargs_get kwargs k = (case map_of kwargs k of None \<Rightarrow> [] | Some d \<Rightarrow> d)"

text \<open>
  A call \<^verbatim>\<open>f(..., k1=v1, ..., **kw)\<close>: Python raises \<^verbatim>\<open>TypeError\<close> before \<open>f\<close> is entered when
  a key of \<open>kw\<close> is one of the keywords written out in the call.
\<close>

definition keyword_call :: "string list \<Rightarrow> (string \<times> 'c) list \<Rightarrow> py_error + unit" where
  "keyword_call explicit kw =
     (case filter (\<lambda>k. k \<in> set explicit) (map fst kw) of
        [] \<Rightarrow> Inr ()
      | k # _ \<Rightarrow> Inl (TypeError (''got multiple values for keyword argument '' @ k)))"

text \<open>A \<^verbatim>\<open>for\<close> loop over a list whose body may raise.\<close>

fun for_each :: "('i \<Rightarrow> 's \<Rightarrow> py_error + 's) \<Rightarrow> 'i list \<Rightarrow> 's \<Rightarrow> py_error + 's" where
  "for_each body [] st = Inr st"
| "for_each body (i # rest) st = bind (body i st) (for_each body rest)"

text \<open>
  \<^verbatim>\<open>
  def apply(self, x, sample_key, **kwargs):
      vgps = {}
      mf = lambda x_: jnp.zeros(x_.shape[:-1])  # initial mean_fun
      for layer in range(1, 3):
          kf = kernels.RBFKernelProvider(
              x, name='kernel_fun_{}'.format(layer),
              **kwargs.get('kernel_fun_{}_kwargs'.format(layer), {}))
          inducing_var = inducing_variables.InducingPointsProvider(
              x, kf, name='inducing_var_{}'.format(layer),
              num_inducing_points=FLAGS.num_inducing_points,
              fixed_locations=True,
              **kwargs.get('inducing_var_{}_kwargs'.format(layer), {}))
          vgp = gaussian_processes.SVGPProvider(
              x, mf, kf, inducing_var, name='vgp_{}'.format(layer))
          x = vgp.marginal().sample(sample_key, shape=(17, ))[..., None]
          vgps[layer] = vgp
          mf = lambda x_: x_[..., 0]  # mean_fun for later layers.
      loglik = LikelihoodProvider(x, name='loglik')
      return loglik, vgps
  \<close>
  The loop state is \<open>(x, mf, vgps)\<close>; \<open>vgps\<close> is a dictionary, kept in insertion order.
\<close>

definition zero_mean :: "'a::zero ndarray \<Rightarrow> py_error + 'a ndarray" where
  "zero_mean x = Inr (zeros (butlast (shape x)))"

definition layer_body ::
  "('a, 'key, 'kern, 'ind, 'vgp, 'dist, 'c) modules \<Rightarrow> 'b flags \<Rightarrow> 'key \<Rightarrow>
   (string \<times> (string \<times> 'c) list) list \<Rightarrow> nat \<Rightarrow>
   'a ndarray \<times> ('a ndarray \<Rightarrow> py_error + 'a ndarray) \<times> (nat \<times> 'vgp) list \<Rightarrow>
   py_error + 'a ndarray \<times> ('a ndarray \<Rightarrow> py_error + 'a ndarray) \<times> (nat \<times> 'vgp) list" where
  "layer_body M FLAGS sample_key kwargs layer st =
     (case st of (x, mf, vgps) \<Rightarrow>
        let kernel_kwargs = kwargs_get kwargs (''kernel_fun_'' @ str_nat layer @ ''_kwargs'') in
        bind (keyword_call [''name''] kernel_kwargs) (\<lambda>_.
        bind (RBFKernelProvider M x (''kernel_fun_'' @ str_nat layer) kernel_kwargs) (\<lambda>kf.
        let inducing_kwargs = kwargs_get kwargs (''inducing_var_'' @ str_nat layer @ ''_kwargs'') in
        bind (keyword_call [''name'', ''num_inducing_points'', ''fixed_locations''] inducing_kwargs) (\<lambda>_.
        bind (InducingPointsProvider M x kf (''inducing_var_'' @ str_nat layer)
                (num_inducing_points FLAGS) True inducing_kwargs) (\<lambda>inducing_var.
        bind (SVGPProvider M x mf kf inducing_var (''vgp_'' @ str_nat layer)) (\<lambda>vgp.
        bind (marginal M vgp) (\<lambda>q.
        bind (sample M q sample_key [17]) (\<lambda>s.
        Inr (expand_last s, getitem_last0, AList.update layer vgp vgps)))))))))"

definition DeepGPModel_apply ::
  "('a::{zero,one,times}, 'key, 'kern, 'ind, 'vgp, 'dist, 'c) modules \<Rightarrow> 'b flags \<Rightarrow> 'a ndarray \<Rightarrow> 'key \<Rightarrow>
   (string \<times> (string \<times> 'c) list) list \<Rightarrow> py_error + 'a mvn_diag \<times> (nat \<times> 'vgp) list" where
  "DeepGPModel_apply M FLAGS x sample_key kwargs =
     bind (for_each (layer_body M FLAGS sample_key kwargs) [1..<3] (x, zero_mean, [])) (\<lambda>st.
       case st of (x, mf, vgps) \<Rightarrow>
         bind (LikelihoodProvider_apply (softplus M) (module_params M ''loglik'') x) (\<lambda>loglik.
         Inr (loglik, vgps)))"

subsection \<open>An instance of the absent modules\<close>

text \<open>
  Integer elements and natural numbers as keys. A kernel or an inducing variable is the
  name it was built under; what \<open>SVGPProvider\<close> returns is its name, its index points and
  its prior mean there; a marginal is its mean; a sample of sample shape \<open>s\<close> from a
  marginal over an array of shape \<open>t\<close> has shape \<open>s @ t\<close> and repeats the key.
\<close>

definition example_modules ::
  "(int, nat, string, string \<times> int, string \<times> int ndarray \<times> int ndarray, int ndarray, unit) modules" where
  "example_modules =
     \<lparr>RBFKernelProvider = (\<lambda>x name kw. Inr name),
      InducingPointsProvider = (\<lambda>x kf name n fixed kw. Inr (name, n)),
      SVGPProvider = (\<lambda>x mf kf iv name. bind (mf x) (\<lambda>m. Inr (name, x, m))),
      marginal = (\<lambda>v. Inr (snd (snd v))),
      sample = (\<lambda>q key shp. Inr (full (shp @ shape q) (int key))),
      prior_kl = (\<lambda>v. Inr \<lparr>shape = [], data = [length (fst v)]\<rparr>),
      log_prob = (\<lambda>ell y. Inr \<lparr>shape = [], data = [sum_list (data y)]\<rparr>),
      softplus = (\<lambda>v. v + 1),
      module_params = (\<lambda>name. [(''observation_noise_scale'', \<lparr>shape = [1], data = [2]\<rparr>)])\<rparr>"

definition example_flags :: "int flags" where
  "example_flags = \<lparr>learning_rate = 1, num_epochs = 2, plot = False, num_inducing_points = 10\<rparr>"

definition example_x :: "int ndarray" where
  "example_x = \<lparr>shape = [1, 1], data = [5]\<rparr>"

subsection \<open>\<^verbatim>\<open>train_step\<close>\<close>

text \<open>
  What the training functions take from JAX and flax. A model is its parameters, of type
  \<open>'m\<close>; \<open>model_modules m\<close> are the absent modules evaluated with the parameters \<open>m\<close>, and
  \<open>init_modules key\<close> the same modules while the parameters are created from \<open>key\<close>, which
  gives the parameters \<open>init_params key\<close>. \<open>grad\<close> is reverse-mode differentiation,
  \<open>reduce_sum\<close> the sum of the elements of an array. An optimizer (of type \<open>'opt\<close>) has a
  target and takes a gradient step. \<^verbatim>\<open>nn.stochastic(rng)\<close> opens a frame (of type \<open>'f\<close>)
  and \<^verbatim>\<open>nn.make_rng()\<close> draws a key from the innermost frame, which changes it.
\<close>

record ('a, 'key, 'kern, 'ind, 'vgp, 'dist, 'c, 'm, 'g, 'opt, 'f) library =
  model_modules :: "'m \<Rightarrow> ('a, 'key, 'kern, 'ind, 'vgp, 'dist, 'c) modules"
  init_modules :: "'key \<Rightarrow> ('a, 'key, 'kern, 'ind, 'vgp, 'dist, 'c) modules"
  init_params :: "'key \<Rightarrow> 'm"
  grad :: "('m \<Rightarrow> py_error + 'a ndarray) \<Rightarrow> 'm \<Rightarrow> 'g"
  target :: "'opt \<Rightarrow> 'm"
  apply_gradient :: "'opt \<Rightarrow> 'g \<Rightarrow> 'opt"
  adam_create :: "'a \<Rightarrow> 'a \<Rightarrow> 'm \<Rightarrow> 'opt"
  reduce_sum :: "'a list \<Rightarrow> 'a"
  PRNGKey :: "nat \<Rightarrow> 'key"
  split :: "'key \<Rightarrow> 'key \<times> 'key"
  stochastic :: "'key \<Rightarrow> 'f"
  make_rng :: "'f \<Rightarrow> 'key \<times> 'f"

text \<open>The dataset: the dictionary with the keys \<^verbatim>\<open>'index_points'\<close> and \<^verbatim>\<open>'y'\<close>.\<close>

record 'a train_ds =
  batch_index_points :: "'a ndarray"
  batch_y :: "'a ndarray"

text \<open>A list comprehension whose element expression may raise.\<close>

fun comprehension :: "('i \<Rightarrow> py_error + 'o) \<Rightarrow> 'i list \<Rightarrow> py_error + 'o list" where
  "comprehension f [] = Inr []"
| "comprehension f (i # rest) = bind (f i) (\<lambda>v. bind (comprehension f rest) (\<lambda>vs. Inr (v # vs)))"

text \<open>
  \<^verbatim>\<open>jnp.sum(list_of_arrays)\<close>: the arrays are stacked, which needs them to have one shape,
  and all elements are summed; the result is zero-dimensional, that is, a scalar.
\<close>

definition jnp_sum :: "('a list \<Rightarrow> 'a) \<Rightarrow> 'a ndarray list \<Rightarrow> py_error + 'a" where
  "jnp_sum reduce arrays =
     (if list_all (\<lambda>a. shape a = shape (hd arrays)) arrays
      then Inr (reduce (concat (map data arrays)))
      else Inl (ValueError ''all input arrays must have the same shape''))"

text \<open>
  \<^verbatim>\<open>jax.value_and_grad(f)(m)\<close>: the value and the gradient of \<open>f\<close> at \<open>m\<close>; it raises unless
  the value is a scalar.
\<close>

definition value_and_grad ::
  "('a, 'key, 'kern, 'ind, 'vgp, 'dist, 'c, 'm, 'g, 'opt, 'f) library \<Rightarrow>
   ('m \<Rightarrow> py_error + 'a ndarray) \<Rightarrow> 'm \<Rightarrow> py_error + 'a ndarray \<times> 'g" where
  "value_and_grad F f m =
     bind (f m) (\<lambda>v.
       if shape v = [] then Inr (v, grad F f m)
       else Inl (TypeError ''Gradient only defined for scalar-output functions''))"

text \<open>
  \<^verbatim>\<open>
  def train_step(optimizer, batch, sample_key):
      def loss_fn(model):
          ell, vgps = model(batch['index_points'], sample_key)
          prior_kl = jnp.sum([item.prior_kl() for _, item in vgps.items()])
          return -ell.log_prob(batch['y']) + prior_kl
      grad_fn = jax.value_and_grad(loss_fn, has_aux=False)
      loss, grad = grad_fn(optimizer.target)
      optimizer = optimizer.apply_gradient(grad)
      metrics = {'loss': loss}
      return optimizer, metrics
  \<close>
  The model is called without keyword arguments.
\<close>

definition loss_fn ::
  "('a::{zero,one,times,plus,uminus}, 'key, 'kern, 'ind, 'vgp, 'dist, 'c, 'm, 'g, 'opt, 'f) library \<Rightarrow>
   'b flags \<Rightarrow> 'a train_ds \<Rightarrow> 'key \<Rightarrow> 'm \<Rightarrow> py_error + 'a ndarray" where
  "loss_fn F FLAGS batch sample_key model =
     bind (DeepGPModel_apply (model_modules F model) FLAGS (batch_index_points batch) sample_key [])
       (\<lambda>res. case res of (ell, vgps) \<Rightarrow>
     bind (comprehension (\<lambda>entry. prior_kl (model_modules F model) (snd entry)) vgps) (\<lambda>kls.
     bind (jnp_sum (reduce_sum F) kls) (\<lambda>kl.
     bind (log_prob (model_modules F model) ell (batch_y batch)) (\<lambda>lp.
     Inr (map_array (\<lambda>v. - v + kl) lp)))))"

definition train_step ::
  "('a::{zero,one,times,plus,uminus}, 'key, 'kern, 'ind, 'vgp, 'dist, 'c, 'm, 'g, 'opt, 'f) library \<Rightarrow>
   'b flags \<Rightarrow> 'opt \<Rightarrow> 'a train_ds \<Rightarrow> 'key \<Rightarrow> py_error + 'opt \<times> (string \<times> 'a ndarray) list" where
  "train_step F FLAGS optimizer batch sample_key =
     bind (value_and_grad F (loss_fn F FLAGS batch sample_key) (target F optimizer)) (\<lambda>res.
       case res of (loss, g) \<Rightarrow>
         let optimizer = apply_gradient F optimizer g;
             metrics = [(''loss'', loss)]
         in Inr (optimizer, metrics))"

text \<open>
  An instance of the library on top of \<open>example_modules\<close>: the model has no parameters of
  its own, an optimizer counts its steps, and splitting the key \<open>k\<close> gives \<open>2k\<close> and
  \<open>2k + 1\<close>.
\<close>

definition example_library ::
  "(int, nat, string, string \<times> int, string \<times> int ndarray \<times> int ndarray, int ndarray, unit,
    unit, unit, nat, nat) library" where
  "example_library =
     \<lparr>model_modules = (\<lambda>m. example_modules),
      init_modules = (\<lambda>key. example_modules),
      init_params = (\<lambda>key. ()),
      grad = (\<lambda>f m. ()),
      target = (\<lambda>opt. ()),
      apply_gradient = (\<lambda>opt g. Suc opt),
      adam_create = (\<lambda>lr beta1 m. 0),
      reduce_sum = sum_list,
      PRNGKey = (\<lambda>seed. seed),
      split = (\<lambda>k. (2 * k, 2 * k + 1)),
      stochastic = (\<lambda>k. k),
      make_rng = (\<lambda>frame. (3 * frame, Suc frame))\<rparr>"

definition example_ds :: "int train_ds" where
  "example_ds = \<lparr>batch_index_points = example_x, batch_y = \<lparr>shape = [1], data = [4]\<rparr>\<rparr>"

subsection \<open>\<^verbatim>\<open>create_model\<close>, \<^verbatim>\<open>train_epoch\<close> and \<^verbatim>\<open>train\<close>\<close>

text \<open>
  From here on the elements are real numbers, which stand for the double-precision
  numbers of the script: the functions below write numbers out (\<open>0.9\<close>, \<open>-1.5\<close>, \<open>0.1\<close>).

  \<^verbatim>\<open>jnp.linspace(start, stop, num)\<close>: \<open>num\<close> evenly spaced numbers from \<open>start\<close> to \<open>stop\<close>,
  both included.
\<close>

definition linspace :: "real \<Rightarrow> real \<Rightarrow> nat \<Rightarrow> real list" where
  "linspace start stop num =
     (if num = 1 then [start]
      else map (\<lambda>i. start + real i * ((stop - start) / real (num - 1))) [0..<num])"







text \<open>
  \<^verbatim>\<open>
  def train_epoch(optimizer, train_ds, epoch, sample_key):
      optimizer, batch_metrics = train_step(optimizer, train_ds, sample_key)
      batch_metrics_np = jax.device_get(batch_metrics)
      epoch_metrics_np = batch_metrics_np
      logging.info('train epoch: %d, loss: %.4f', epoch, epoch_metrics_np['loss'])
      return optimizer, epoch_metrics_np
  \<close>
  The line that is logged is the second component of the result.
\<close>

definition train_epoch ::
  "('a::{zero,one,times,plus,uminus}, 'key, 'kern, 'ind, 'vgp, 'dist, 'c, 'm, 'g, 'opt, 'f) library \<Rightarrow>
   'b flags \<Rightarrow> 'opt \<Rightarrow> 'a train_ds \<Rightarrow> int \<Rightarrow> 'key \<Rightarrow>
   py_error + ('opt \<times> (string \<times> 'a ndarray) list) \<times> (int \<times> 'a ndarray)" where
  "train_epoch F FLAGS optimizer train_ds epoch sample_key =
     bind (train_step F FLAGS optimizer train_ds sample_key) (\<lambda>res.
       case res of (optimizer, batch_metrics) \<Rightarrow>
         let batch_metrics_np = batch_metrics;
             epoch_metrics_np = batch_metrics_np
         in case map_of epoch_metrics_np ''loss'' of
              None \<Rightarrow> Inl (KeyError ''loss'')
            | Some loss \<Rightarrow> Inr ((optimizer, epoch_metrics_np), (epoch, loss)))"

text \<open>
  \<^verbatim>\<open>
  def train(train_ds):
      rng = random.PRNGKey(1)
      num_epochs = FLAGS.num_epochs
      with nn.stochastic(rng):
          model = create_model(rng, (15, 1))
          optimizer = create_optimizer(model, FLAGS.learning_rate, 0.9)
          sample_key = nn.make_rng()
          for epoch in range(1, num_epochs + 1):
              _, sample_key = random.split(sample_key)
              optimizer, metrics = train_epoch(
                  optimizer, train_ds, epoch, sample_key)
      return optimizer
  \<close>
  The state of the loop is the optimizer, the sample key and the lines logged so far;
  \<open>train\<close> returns the optimizer, and the log with it. The frame that \<^verbatim>\<open>create_model\<close>
  opens is its own, so the frame of \<open>train\<close> is untouched when \<^verbatim>\<open>nn.make_rng()\<close> is called.
\<close>

definition epoch_body ::
  "('a::{zero,one,times,plus,uminus}, 'key, 'kern, 'ind, 'vgp, 'dist, 'c, 'm, 'g, 'opt, 'f) library \<Rightarrow>
   'b flags \<Rightarrow> 'a train_ds \<Rightarrow> int \<Rightarrow> 'opt \<times> 'key \<times> (int \<times> 'a ndarray) list \<Rightarrow>
   py_error + 'opt \<times> 'key \<times> (int \<times> 'a ndarray) list" where
  "epoch_body F FLAGS train_ds epoch st =
     (case st of (optimizer, sample_key, logged) \<Rightarrow>
        case split F sample_key of (_, sample_key) \<Rightarrow>
          bind (train_epoch F FLAGS optimizer train_ds epoch sample_key) (\<lambda>res.
            case res of ((optimizer, metrics), line) \<Rightarrow> Inr (optimizer, sample_key, logged @ [line])))"


text \<open>
  The same loop written with the keys given beforehand: epoch number \<open>i\<close> (counted from 1)
  runs with \<open>epoch_key F key0 i\<close>, the key reached from \<open>key0\<close> by splitting \<open>i\<close> times and
  taking the second half each time.
\<close>

definition epoch_key ::
  "('a, 'key, 'kern, 'ind, 'vgp, 'dist, 'c, 'm, 'g, 'opt, 'f) library \<Rightarrow> 'key \<Rightarrow> nat \<Rightarrow> 'key" where
  "epoch_key F key0 i = ((\<lambda>k. snd (split F k)) ^^ i) key0"

definition keyed_epoch_body ::
  "('a::{zero,one,times,plus,uminus}, 'key, 'kern, 'ind, 'vgp, 'dist, 'c, 'm, 'g, 'opt, 'f) library \<Rightarrow>
   'b flags \<Rightarrow> 'a train_ds \<Rightarrow> int \<times> 'key \<Rightarrow> 'opt \<times> (int \<times> 'a ndarray) list \<Rightarrow>
   py_error + 'opt \<times> (int \<times> 'a ndarray) list" where
  "keyed_epoch_body F FLAGS train_ds ek st =
     (case ek of (epoch, sample_key) \<Rightarrow>
      case st of (optimizer, logged) \<Rightarrow>
        bind (train_epoch F FLAGS optimizer train_ds epoch sample_key) (\<lambda>res.
          case res of ((optimizer, metrics), line) \<Rightarrow> Inr (optimizer, logged @ [line])))"

definition epoch_keys ::
  "('a, 'key, 'kern, 'ind, 'vgp, 'dist, 'c, 'm, 'g, 'opt, 'f) library \<Rightarrow> 'key \<Rightarrow> int list \<Rightarrow>
   (int \<times> 'key) list" where
  "epoch_keys F key0 epochs = zip epochs (map (epoch_key F key0) [1..<Suc (length epochs)])"




subsection \<open>\<^verbatim>\<open>get_datasets\<close>\<close>

text \<open>
  \<^verbatim>\<open>
  def step_fun(x):
      if x <= 0.:
          return -1.
      else:
          return 1.
  \<close>
\<close>

definition step_fun :: "real \<Rightarrow> real" where
  "step_fun x = (if x \<le> 0 then - 1 else 1)"

text \<open>\<^verbatim>\<open>a + b\<close> for two arrays of one shape: element by element.\<close>

definition add_same_shape :: "'a::plus ndarray \<Rightarrow> 'a ndarray \<Rightarrow> 'a ndarray" where
  "add_same_shape a b = \<lparr>shape = shape a, data = map2 (+) (data a) (data b)\<rparr>"

text \<open>
  \<^verbatim>\<open>
  def get_datasets():
      rng = random.PRNGKey(123)
      index_points = jnp.linspace(-1.5, 1.5, 25)
      y = (jnp.array([step_fun(x) for x in index_points])
           + 0.1*random.normal(rng, index_points.shape))
      train_ds = {'index_points': index_points[..., None], 'y': y}
      return train_ds
  \<close>
  \<^verbatim>\<open>random.PRNGKey\<close> and \<^verbatim>\<open>random.normal\<close> are parameters; \<open>normal key shape\<close> is an array of
  standard-normal draws of that shape.
\<close>

definition get_datasets :: "(nat \<Rightarrow> 'key) \<Rightarrow> ('key \<Rightarrow> nat list \<Rightarrow> real ndarray) \<Rightarrow> real train_ds" where
  "get_datasets PRNGKey' normal =
     (let rng = PRNGKey' 123;
          index_points = \<lparr>shape = [25], data = linspace (- 1.5) 1.5 25\<rparr>;
          y = add_same_shape
                \<lparr>shape = [length (data index_points)], data = map step_fun (data index_points)\<rparr>
                (map_array (\<lambda>z. 0.1 * z) (normal rng (shape index_points)))
      in \<lparr>batch_index_points = expand_last index_points, batch_y = y\<rparr>)"

section \<open>Properties of the programs\<close>

subsection \<open>Basic facts\<close>

declare str_nat.simps [simp del]

lemma str_nat_digit: "n < 10 \<Longrightarrow> str_nat n = [''0123456789'' ! n]"
  by (simp add: str_nat.simps)

lemma bind_Inr_iff: "bind m f = Inr r \<longleftrightarrow> (\<exists>v. m = Inr v \<and> f v = Inr r)"
  by (cases m) (simp_all add: bind_def)

lemma wf_array_full: "wf_array (full shp v)"
  by (simp add: wf_array_def full_def)

lemma getitem_last0_expand_last:
  assumes "wf_array x"
  shows "getitem_last0 (expand_last x) = Inr x"
proof -
  have "map (\<lambda>k. data x ! k) [0..<prod_list (shape x)] = data x"
    using assms map_nth [of "data x"] by (simp add: wf_array_def)
  then show ?thesis
    by (simp add: getitem_last0_def expand_last_def)
qed

lemma LikelihoodProvider_apply_value:
  fixes sp :: "'a::{times,one} \<Rightarrow> 'a"
  assumes "param ps ''observation_noise_scale'' [1] = Inr \<lparr>shape = [1], data = [q]\<rparr>"
    and "getitem_last0 x = Inr f"
    and "\<And>a::'a. 1 * a = a"
  shows "LikelihoodProvider_apply sp ps x
           = Inr (MultivariateNormalDiag f
                    (full (if butlast (shape x) = [] then [1] else butlast (shape x)) (sp q)))"
proof -
  have sd: "times_singleton (ones (butlast (shape x))) (map_array sp \<lparr>shape = [1], data = [q]\<rparr>)
              = full (if butlast (shape x) = [] then [1] else butlast (shape x)) (sp q)"
    using assms(3)
    by (simp add: times_singleton_def ones_def full_def map_array_def map_replicate)
  show ?thesis
    unfolding LikelihoodProvider_apply_def using assms(1,2) sd by (simp add: bind_def Let_def)
qed

lemma shape_full [simp]: "shape (full shp v) = shp"
  by (simp add: full_def)

lemma shape_expand_last [simp]: "shape (expand_last x) = shape x @ [1]"
  by (simp add: expand_last_def)

subsection \<open>\<^verbatim>\<open>_diag_shift\<close>: scattered writes along the diagonal\<close>

lemma is_matrix_set_entry:
  "is_matrix r c m \<Longrightarrow> is_matrix r c (set_entry (i, j, v) m)"
proof -
  assume m: "is_matrix r c m"
  have "length ((m[i := (m ! i)[j := v]]) ! a) = c" if "a < length m" for a
    using m that by (cases "a = i") (auto simp: is_matrix_def list_all_length)
  with m show ?thesis
    by (simp add: is_matrix_def set_entry_def list_all_length)
qed

lemma set_entry_nth:
  "i < length m \<Longrightarrow> j < length (m ! i) \<Longrightarrow>
   set_entry (i, j, v) m ! a ! b = (if a = i \<and> b = j then v else m ! a ! b)"
  by (auto simp: set_entry_def nth_list_update)

lemma fold_diag_writes:
  assumes "is_matrix n n m" and "set ks \<subseteq> {..<n}"
  shows "is_matrix n n (fold set_entry (map (\<lambda>k. (k, k, g k)) ks) m) \<and>
         (\<forall>a<n. \<forall>b<n. fold set_entry (map (\<lambda>k. (k, k, g k)) ks) m ! a ! b =
            (if a = b \<and> a \<in> set ks then g a else m ! a ! b))"
  using assms
proof (induction ks arbitrary: m rule: rev_induct)
  case Nil
  then show ?case by simp
next
  case (snoc k ks)
  let ?m' = "fold set_entry (map (\<lambda>k. (k, k, g k)) ks) m"
  from snoc.prems have kn: "k < n" and sub: "set ks \<subseteq> {..<n}" by auto
  from snoc.IH [OF snoc.prems(1) sub]
  have mat: "is_matrix n n ?m'"
    and ent: "\<forall>a<n. \<forall>b<n. ?m' ! a ! b = (if a = b \<and> a \<in> set ks then g a else m ! a ! b)"
    by auto
  have len: "k < length ?m'" "k < length (?m' ! k)"
    using mat kn by (auto simp: is_matrix_def list_all_length)
  have step: "fold set_entry (map (\<lambda>k. (k, k, g k)) (ks @ [k])) m = set_entry (k, k, g k) ?m'"
    by simp
  show ?case
    unfolding step
    using is_matrix_set_entry [OF mat] ent
    by (auto simp: set_entry_nth [OF len])
qed

lemma zip_diag_writes:
  "zip ks (zip ks (map g ks)) = map (\<lambda>k. (k, k, g k)) ks"
  by (induction ks) auto

lemma diag_square:
  "square n m \<Longrightarrow> diag m = map (\<lambda>i. m ! i ! i) [0..<n]"
  by (cases m) (auto simp: diag_def square_def is_matrix_def shape_last_def)

lemma shape_last_square:
  "square n m \<Longrightarrow> shape_last m = n"
  by (cases m) (auto simp: square_def is_matrix_def shape_last_def)

lemma diag_shift_square:
  assumes "square n mat"
  shows "diag_shift mat val = Inr (fold set_entry (map (\<lambda>k. (k, k, mat ! k ! k + val)) [0..<n]) mat)"
proof -
  have "add_scalar (diag mat) val = map (\<lambda>k. mat ! k ! k + val) [0..<n]"
    by (simp add: add_scalar_def diag_square [OF assms])
  then show ?thesis
    by (simp add: diag_shift_def shape_last_square [OF assms] diag_indices_def index_update_def
        broadcast_to_def zip_diag_writes)
qed

lemma diag_shift_square_entries:
  assumes "square n mat"
  shows "\<exists>res. diag_shift mat val = Inr res \<and> square n res \<and>
           (\<forall>i<n. \<forall>j<n. res ! i ! j = (if i = j then mat ! i ! i + val else mat ! i ! j))"
proof -
  let ?res = "fold set_entry (map (\<lambda>k. (k, k, mat ! k ! k + val)) [0..<n]) mat"
  have m: "is_matrix n n mat" using assms by (simp add: square_def)
  have "set [0..<n] \<subseteq> {..<n}" by auto
  from fold_diag_writes [OF m this, of "\<lambda>k. mat ! k ! k + val"]
  have "square n ?res"
    and "\<forall>i<n. \<forall>j<n. ?res ! i ! j = (if i = j then mat ! i ! i + val else mat ! i ! j)"
    by (auto simp: square_def)
  with diag_shift_square [OF assms, of val] show ?thesis by blast
qed

text \<open>
  C9. For every square matrix \<open>mat\<close> and scalar \<open>val\<close>, \<^verbatim>\<open>_diag_shift(mat, val)\<close> returns a
  matrix of the same shape whose off-diagonal entries are those of \<open>mat\<close> and whose
  diagonal entries are those of \<open>mat\<close> plus \<open>val\<close>. The result is a new value: \<open>mat\<close> is an
  immutable array and is what it was.
\<close>

theorem diag_shift_entries:
  assumes "square n mat"
  shows "\<exists>res. diag_shift mat val = Inr res \<and> square n res \<and>
           (\<forall>i<n. \<forall>j<n. res ! i ! j = (if i = j then mat ! i ! i + val else mat ! i ! j))"
  using assms by (rule diag_shift_square_entries)

theorem diag_shift_entries_witness:
  "square 2 [[1, 2], [3, 4 :: int]] \<and>
   diag_shift [[1, 2], [3, 4 :: int]] 10 = Inr [[11, 2], [3, 14]]"
proof -
  have sq: "square 2 [[1, 2], [3, 4 :: int]]"
    by (simp add: square_def is_matrix_def)
  have ev: "diag_shift [[1, 2], [3, 4 :: int]] 10 = Inr [[11, 2], [3, 14]]"
    by (simp add: diag_shift_def shape_last_def diag_indices_def diag_def add_scalar_def
        index_update_def broadcast_to_def set_entry_def upt_rec)
  from diag_shift_entries [OF sq, of 10] ev sq show ?thesis by simp
qed

subsection \<open>The Gaussian-process layer and the observation models\<close>

text \<open>
  C4. \<^verbatim>\<open>GaussianProcessLayer.apply\<close> factorizes the kernel matrix with \<open>jitter\<close> added to
  every diagonal entry and nothing else changed, and returns the \<^verbatim>\<open>MultivariateNormalTriL\<close>
  whose mean is \<open>mean_fun(index_points)\<close> (zeros of shape \<^verbatim>\<open>index_points.shape[:-1]\<close> when no
  mean function is given) and whose scale is the Cholesky factor of that matrix.
\<close>

theorem GaussianProcessLayer_apply_jitter:
  assumes "kernel_fun x = Inr K" and "square n K"
  shows "\<exists>K'. diag_shift K jitter = Inr K' \<and> square n K' \<and>
              (\<forall>i<n. \<forall>j<n. K' ! i ! j = (if i = j then K ! i ! i + jitter else K ! i ! j)) \<and>
              (\<forall>mean_fun m. mean_fun x = Inr m \<longrightarrow>
                 GaussianProcessLayer_apply cholesky x kernel_fun (Some mean_fun) jitter
                   = Inr (MultivariateNormalTriL m (cholesky K'))) \<and>
              GaussianProcessLayer_apply cholesky x kernel_fun None jitter
                = Inr (MultivariateNormalTriL (zeros (butlast (shape x))) (cholesky K'))"
proof -
  from diag_shift_square_entries [OF assms(2), of jitter]
  obtain K' where K': "diag_shift K jitter = Inr K'" "square n K'"
    "\<forall>i<n. \<forall>j<n. K' ! i ! j = (if i = j then K ! i ! i + jitter else K ! i ! j)"
    by blast
  have "GaussianProcessLayer_apply cholesky x kernel_fun (Some mean_fun) jitter
          = Inr (MultivariateNormalTriL m (cholesky K'))" if "mean_fun x = Inr m" for mean_fun m
    using assms(1) K'(1) that by (simp add: GaussianProcessLayer_apply_def bind_def)
  moreover have "GaussianProcessLayer_apply cholesky x kernel_fun None jitter
          = Inr (MultivariateNormalTriL (zeros (butlast (shape x))) (cholesky K'))"
    using assms(1) K'(1) by (simp add: GaussianProcessLayer_apply_def bind_def)
  ultimately show ?thesis using K' by blast
qed

theorem GaussianProcessLayer_apply_jitter_witness:
  "square 2 [[4, 2], [2, 3 :: int]] \<and>
   GaussianProcessLayer_apply (\<lambda>c. c) \<lparr>shape = [2, 1], data = [0, 1 :: int]\<rparr>
       (\<lambda>_. Inr [[4, 2], [2, 3]]) None 1
     = Inr (MultivariateNormalTriL (zeros [2]) [[5, 2], [2, 4]])"
proof -
  let ?K = "[[4, 2], [2, 3 :: int]]"
  let ?x = "\<lparr>shape = [2, 1], data = [0, 1 :: int]\<rparr>"
  have sq: "square 2 ?K"
    by (simp add: square_def is_matrix_def)
  have ev: "diag_shift ?K 1 = Inr [[5, 2], [2, 4]]"
    by (simp add: diag_shift_def shape_last_def diag_indices_def diag_def add_scalar_def
        index_update_def broadcast_to_def set_entry_def upt_rec)
  from GaussianProcessLayer_apply_jitter [of "\<lambda>_. Inr ?K" ?x ?K 2 1 "\<lambda>c. c", OF refl sq]
  obtain K' where "diag_shift ?K 1 = Inr K'"
    and "GaussianProcessLayer_apply (\<lambda>c. c) ?x (\<lambda>_. Inr ?K) None 1
           = Inr (MultivariateNormalTriL (zeros (butlast (shape ?x))) K')"
    by blast
  with ev sq show ?thesis by simp
qed

text \<open>
  C5. \<^verbatim>\<open>MarginalObservationModel.apply\<close> maps the latent \<^verbatim>\<open>MultivariateNormalTriL\<close> with mean
  \<open>m\<close> and scale \<open>L\<close> to the \<^verbatim>\<open>MultivariateNormalFull\<close> with mean \<open>m\<close> and covariance
  \<open>L @ L.T\<close> with \<open>softplus(p)\<^sup>2\<close> added to every diagonal entry, where \<open>p\<close> is the stored
  parameter; \<^verbatim>\<open>LikelihoodProvider\<close> returns the \<^verbatim>\<open>MultivariateNormalDiag\<close> with mean
  \<open>x[..., 0]\<close> and every scale entry equal to \<open>softplus(q)\<close>, \<open>q\<close> its stored parameter.
  Multiplying by one leaves a number as it is.
\<close>

theorem observation_noise_model:
  fixes softplus :: "'a::{plus,times,one} \<Rightarrow> 'a"
  assumes "param_scalar ps ''observation_noise_scale'' = Inr p"
    and "square n (matmul L (transpose_matrix L))"
    and "param ps' ''observation_noise_scale'' [1] = Inr \<lparr>shape = [1], data = [q]\<rparr>"
    and "getitem_last0 x = Inr f"
    and "\<And>a::'a. 1 * a = a"
  shows "(\<exists>cov. MarginalObservationModel_apply softplus matmul ps (MultivariateNormalTriL m L)
                  = Inr (MultivariateNormalFull m cov) \<and> square n cov \<and>
               (\<forall>i<n. \<forall>j<n. cov ! i ! j =
                  (if i = j then matmul L (transpose_matrix L) ! i ! i + softplus p * softplus p
                   else matmul L (transpose_matrix L) ! i ! j))) \<and>
         LikelihoodProvider_apply softplus ps' x
           = Inr (MultivariateNormalDiag f
                    (full (if butlast (shape x) = [] then [1] else butlast (shape x)) (softplus q)))"
proof -
  from diag_shift_square_entries [OF assms(2), of "softplus p * softplus p"]
  obtain cov where cov: "diag_shift (matmul L (transpose_matrix L)) (softplus p * softplus p) = Inr cov"
    "square n cov"
    "\<forall>i<n. \<forall>j<n. cov ! i ! j =
       (if i = j then matmul L (transpose_matrix L) ! i ! i + softplus p * softplus p
        else matmul L (transpose_matrix L) ! i ! j)"
    by blast
  have A: "MarginalObservationModel_apply softplus matmul ps (MultivariateNormalTriL m L)
             = Inr (MultivariateNormalFull m cov)"
    using assms(1) cov(1) by (simp add: MarginalObservationModel_apply_def bind_def Let_def)
  have B: "LikelihoodProvider_apply softplus ps' x
             = Inr (MultivariateNormalDiag f
                      (full (if butlast (shape x) = [] then [1] else butlast (shape x)) (softplus q)))"
    using assms(3,4,5) by (rule LikelihoodProvider_apply_value)
  from A B cov show ?thesis by blast
qed

theorem observation_noise_model_witness:
  "param_scalar [(''observation_noise_scale'', \<lparr>shape = [], data = [2 :: int]\<rparr>)]
       ''observation_noise_scale'' = Inr 2 \<and>
   square 2 (matmul_exact [[1, 0], [2, 3 :: int]] (transpose_matrix [[1, 0], [2, 3]])) \<and>
   param [(''observation_noise_scale'', \<lparr>shape = [1], data = [2 :: int]\<rparr>)]
       ''observation_noise_scale'' [1] = Inr \<lparr>shape = [1], data = [2]\<rparr> \<and>
   getitem_last0 \<lparr>shape = [2, 1], data = [5, 7 :: int]\<rparr> = Inr \<lparr>shape = [2], data = [5, 7]\<rparr> \<and>
   MarginalObservationModel_apply (\<lambda>v. v + 1) matmul_exact
       [(''observation_noise_scale'', \<lparr>shape = [], data = [2 :: int]\<rparr>)]
       (MultivariateNormalTriL \<lparr>shape = [2], data = [5, 7]\<rparr> [[1, 0], [2, 3]])
     = Inr (MultivariateNormalFull \<lparr>shape = [2], data = [5, 7]\<rparr> [[10, 2], [2, 22]]) \<and>
   LikelihoodProvider_apply (\<lambda>v. v + 1)
       [(''observation_noise_scale'', \<lparr>shape = [1], data = [2 :: int]\<rparr>)]
       \<lparr>shape = [2, 1], data = [5, 7 :: int]\<rparr>
     = Inr (MultivariateNormalDiag \<lparr>shape = [2], data = [5, 7]\<rparr> \<lparr>shape = [2], data = [3, 3]\<rparr>)"
proof -
  let ?ps = "[(''observation_noise_scale'', \<lparr>shape = [], data = [2 :: int]\<rparr>)]"
  let ?ps' = "[(''observation_noise_scale'', \<lparr>shape = [1], data = [2 :: int]\<rparr>)]"
  let ?L = "[[1, 0], [2, 3 :: int]]"
  let ?x = "\<lparr>shape = [2, 1], data = [5, 7 :: int]\<rparr>"
  let ?m = "\<lparr>shape = [2], data = [5, 7 :: int]\<rparr>"
  have h1: "param_scalar ?ps ''observation_noise_scale'' = Inr 2"
    by (simp add: param_scalar_def param_def wf_array_def bind_def)
  have prod: "matmul_exact ?L (transpose_matrix ?L) = [[1, 2], [2, 13]]"
    by (simp add: matmul_exact_def transpose_matrix_def shape_last_def upt_rec)
  have h2: "square 2 (matmul_exact ?L (transpose_matrix ?L))"
    unfolding prod by (simp add: square_def is_matrix_def)
  have h3: "param ?ps' ''observation_noise_scale'' [1] = Inr \<lparr>shape = [1], data = [2]\<rparr>"
    by (simp add: param_def wf_array_def)
  have h4: "getitem_last0 ?x = Inr ?m"
    by (simp add: getitem_last0_def upt_rec)
  have h5: "\<And>a::int. 1 * a = a" by simp
  have ev: "diag_shift [[1, 2], [2, 13 :: int]] 9 = Inr [[10, 2], [2, 22]]"
    by (simp add: diag_shift_def shape_last_def diag_indices_def diag_def add_scalar_def
        index_update_def broadcast_to_def set_entry_def upt_rec)
  have A: "MarginalObservationModel_apply (\<lambda>v. v + 1) matmul_exact ?ps (MultivariateNormalTriL ?m ?L)
             = Inr (MultivariateNormalFull ?m [[10, 2], [2, 22]])"
    using h1 ev by (simp add: MarginalObservationModel_apply_def bind_def prod)
  from observation_noise_model [of ?ps 2 2 matmul_exact ?L ?ps' 2 ?x ?m "\<lambda>v. v + 1" ?m,
      OF h1 h2 h3 h4 h5]
  have B: "LikelihoodProvider_apply (\<lambda>v. v + 1) ?ps' ?x
             = Inr (MultivariateNormalDiag ?m (full [2] 3))"
    by simp
  have "full [2] (3 :: int) = \<lparr>shape = [2], data = [3, 3]\<rparr>"
    by (simp add: full_def numeral_2_eq_2)
  with h1 h2 h3 h4 A B show ?thesis by simp
qed

subsection \<open>Mean shifting\<close>

lemma map_of_replace_field:
  "map_of (attrs (replace_field p name v)) k =
     (if k = name \<and> map_of (attrs p) name \<noteq> None then Some v else map_of (attrs p) k)"
proof -
  have "map_of (map (\<lambda>(k, w). if k = name then (k, v) else (k, w)) xs) k =
        (if k = name \<and> map_of xs name \<noteq> None then Some v else map_of xs k)" for xs
    by (induction xs) (auto split: if_splits)
  then show ?thesis by (simp add: replace_field_def)
qed

text \<open>
  C6, as the code has it. \<^verbatim>\<open>MeanShiftDistribution.apply\<close> is duck-typed: it attempts
  \<^verbatim>\<open>p.replace(mean=p.mean + shift)\<close> when it is called. On a dataclass with a field \<open>mean\<close>
  it returns an object of the same class whose \<open>mean\<close> is \<open>p.mean + shift\<close> and whose other
  fields are those of \<open>p\<close>; on an object without \<^verbatim>\<open>replace\<close> or without \<open>mean\<close> the
  \<^verbatim>\<open>AttributeError\<close> is caught and raised again with the message that \<open>p\<close> must have a
  \<open>mean\<close> field.
\<close>

theorem MeanShiftDistribution_apply_duck_typed:
  "(dataclass p \<and> map_of (attrs p) ''mean'' = Some m \<and> add m shift = Inr m' \<longrightarrow>
      (\<exists>pnew. MeanShiftDistribution_apply add p shift = Inr pnew \<and>
         class_name pnew = class_name p \<and> map (fst) (attrs pnew) = map fst (attrs p) \<and>
         map_of (attrs pnew) ''mean'' = Some m' \<and>
         (\<forall>k. k \<noteq> ''mean'' \<longrightarrow> map_of (attrs pnew) k = map_of (attrs p) k))) \<and>
   (\<not> dataclass p \<or> map_of (attrs p) ''mean'' = None \<longrightarrow>
      MeanShiftDistribution_apply add p shift
        = Inl (AttributeError (class_name p @ '' must have a `mean` field.'')))"
proof (intro conjI impI)
  assume h: "dataclass p \<and> map_of (attrs p) ''mean'' = Some m \<and> add m shift = Inr m'"
  let ?pnew = "replace_field p ''mean'' m'"
  have "MeanShiftDistribution_apply add p shift = Inr ?pnew"
    using h by (simp add: MeanShiftDistribution_apply_def getattr_def bind_def)
  moreover have "class_name ?pnew = class_name p"
    by (simp add: replace_field_def)
  moreover have "map fst (attrs ?pnew) = map fst (attrs p)"
    by (auto simp: replace_field_def)
  moreover have "map_of (attrs ?pnew) ''mean'' = Some m'"
    using h by (simp add: map_of_replace_field)
  moreover have "\<forall>k. k \<noteq> ''mean'' \<longrightarrow> map_of (attrs ?pnew) k = map_of (attrs p) k"
    by (simp add: map_of_replace_field)
  ultimately show "\<exists>pnew. MeanShiftDistribution_apply add p shift = Inr pnew \<and>
         class_name pnew = class_name p \<and> map (fst) (attrs pnew) = map fst (attrs p) \<and>
         map_of (attrs pnew) ''mean'' = Some m' \<and>
         (\<forall>k. k \<noteq> ''mean'' \<longrightarrow> map_of (attrs pnew) k = map_of (attrs p) k)"
    by blast
next
  assume "\<not> dataclass p \<or> map_of (attrs p) ''mean'' = None"
  then show "MeanShiftDistribution_apply add p shift
        = Inl (AttributeError (class_name p @ '' must have a `mean` field.''))"
    by (auto simp: MeanShiftDistribution_apply_def getattr_def bind_def)
qed

theorem MeanShiftDistribution_apply_duck_typed_witness:
  "MeanShiftDistribution_apply (\<lambda>a b. Inr (a + b))
       \<lparr>class_name = ''MultivariateNormalDiag'', attrs = [(''mean'', 3 :: int), (''scale_diag'', 2)],
        dataclass = True\<rparr> 4
     = Inr \<lparr>class_name = ''MultivariateNormalDiag'', attrs = [(''mean'', 7), (''scale_diag'', 2)],
            dataclass = True\<rparr> \<and>
   MeanShiftDistribution_apply (\<lambda>a b. Inr (a + b))
       \<lparr>class_name = ''Kernel'', attrs = [(''amplitude'', 3 :: int)], dataclass = False\<rparr> 4
     = Inl (AttributeError ''Kernel must have a `mean` field.'')"
proof -
  let ?p = "\<lparr>class_name = ''MultivariateNormalDiag'', attrs = [(''mean'', 3 :: int), (''scale_diag'', 2)],
             dataclass = True\<rparr>"
  let ?q = "\<lparr>class_name = ''Kernel'', attrs = [(''amplitude'', 3 :: int)], dataclass = False\<rparr>"
  have ev: "MeanShiftDistribution_apply (\<lambda>a b. Inr (a + b)) ?p 4
              = Inr \<lparr>class_name = ''MultivariateNormalDiag'',
                     attrs = [(''mean'', 7), (''scale_diag'', 2)], dataclass = True\<rparr>"
    by (simp add: MeanShiftDistribution_apply_def getattr_def bind_def replace_field_def)
  have hp: "dataclass ?p \<and> map_of (attrs ?p) ''mean'' = Some 3 \<and> (\<lambda>a b. Inr (a + b)) 3 4 = Inr (7 :: int)"
    by simp
  from MeanShiftDistribution_apply_duck_typed [of ?p 3 "\<lambda>a b. Inr (a + b)" 4 7] hp
  have "\<exists>pnew. MeanShiftDistribution_apply (\<lambda>a b. Inr (a + b)) ?p 4 = Inr pnew \<and>
          map_of (attrs pnew) ''mean'' = Some 7"
    by blast
  moreover from MeanShiftDistribution_apply_duck_typed [of ?q 3 "\<lambda>a b. Inr (a + b)" 4 7]
  have "MeanShiftDistribution_apply (\<lambda>a b. Inr (a + b)) ?q 4
          = Inl (AttributeError ''Kernel must have a `mean` field.'')"
    by simp
  ultimately show ?thesis using ev by simp
qed

text \<open>
  C6, as the claim has it, fails: nothing is checked when the object is built. A dataclass
  without a field \<open>mean\<close> is accepted as the argument, and the call ends in the
  \<^verbatim>\<open>AttributeError\<close> raised by the handler.
\<close>

theorem MeanShiftDistribution_raises_at_run_time:
  "MeanShiftDistribution_apply (\<lambda>a b. Inr (a + b))
       \<lparr>class_name = ''GaussianProcess'', attrs = [(''mean_function'', 0 :: int)],
        dataclass = True\<rparr> 1
     = Inl (AttributeError ''GaussianProcess must have a `mean` field.'')"
  by (simp add: MeanShiftDistribution_apply_def getattr_def bind_def)

subsection \<open>The layers of the deep model\<close>

lemma layer_body_Inr:
  assumes "layer_body M FLAGS sample_key kwargs layer (x, mf, vgps) = Inr st"
  shows "\<exists>kf iv v q s.
           RBFKernelProvider M x (''kernel_fun_'' @ str_nat layer)
             (kwargs_get kwargs (''kernel_fun_'' @ str_nat layer @ ''_kwargs'')) = Inr kf \<and>
           InducingPointsProvider M x kf (''inducing_var_'' @ str_nat layer) (num_inducing_points FLAGS)
             True (kwargs_get kwargs (''inducing_var_'' @ str_nat layer @ ''_kwargs'')) = Inr iv \<and>
           SVGPProvider M x mf kf iv (''vgp_'' @ str_nat layer) = Inr v \<and>
           marginal M v = Inr q \<and> sample M q sample_key [17] = Inr s \<and>
           st = (expand_last s, getitem_last0, AList.update layer v vgps)"
  using assms unfolding layer_body_def Let_def prod.case bind_Inr_iff
  by blast

lemma layers_1_2: "[1..<3] = [1, 2 :: nat]"
  by (simp add: upt_rec)

lemma DeepGPModel_apply_Inr:
  assumes "DeepGPModel_apply M FLAGS x sample_key kwargs = Inr (loglik, vgps)"
  shows "\<exists>kf1 iv1 v1 q1 s1 kf2 iv2 v2 q2 s2.
           RBFKernelProvider M x ''kernel_fun_1'' (kwargs_get kwargs ''kernel_fun_1_kwargs'') = Inr kf1 \<and>
           InducingPointsProvider M x kf1 ''inducing_var_1'' (num_inducing_points FLAGS) True
             (kwargs_get kwargs ''inducing_var_1_kwargs'') = Inr iv1 \<and>
           SVGPProvider M x zero_mean kf1 iv1 ''vgp_1'' = Inr v1 \<and>
           marginal M v1 = Inr q1 \<and> sample M q1 sample_key [17] = Inr s1 \<and>
           RBFKernelProvider M (expand_last s1) ''kernel_fun_2''
             (kwargs_get kwargs ''kernel_fun_2_kwargs'') = Inr kf2 \<and>
           InducingPointsProvider M (expand_last s1) kf2 ''inducing_var_2'' (num_inducing_points FLAGS)
             True (kwargs_get kwargs ''inducing_var_2_kwargs'') = Inr iv2 \<and>
           SVGPProvider M (expand_last s1) getitem_last0 kf2 iv2 ''vgp_2'' = Inr v2 \<and>
           marginal M v2 = Inr q2 \<and> sample M q2 sample_key [17] = Inr s2 \<and>
           LikelihoodProvider_apply (softplus M) (module_params M ''loglik'') (expand_last s2) = Inr loglik \<and>
           vgps = [(1, v1), (2, v2)]"
proof -
  have names: "str_nat 1 = ''1''" "str_nat 2 = ''2''"
    by (simp_all add: str_nat_digit)
  from assms obtain st where
    loop: "for_each (layer_body M FLAGS sample_key kwargs) [1, 2] (x, zero_mean, []) = Inr st"
    and fin: "(case st of (x, mf, vgps) \<Rightarrow>
                bind (LikelihoodProvider_apply (softplus M) (module_params M ''loglik'') x)
                  (\<lambda>loglik. Inr (loglik, vgps))) = Inr (loglik, vgps)"
    unfolding DeepGPModel_apply_def layers_1_2 bind_Inr_iff by blast
  from loop obtain st1 where
    b1: "layer_body M FLAGS sample_key kwargs 1 (x, zero_mean, []) = Inr st1"
    and b2': "bind (layer_body M FLAGS sample_key kwargs 2 st1) Inr = Inr st"
    by (auto simp: bind_Inr_iff)
  from layer_body_Inr [OF b1] obtain kf1 iv1 v1 q1 s1 where
    l1: "RBFKernelProvider M x ''kernel_fun_1'' (kwargs_get kwargs ''kernel_fun_1_kwargs'') = Inr kf1"
      "InducingPointsProvider M x kf1 ''inducing_var_1'' (num_inducing_points FLAGS) True
         (kwargs_get kwargs ''inducing_var_1_kwargs'') = Inr iv1"
      "SVGPProvider M x zero_mean kf1 iv1 ''vgp_1'' = Inr v1"
      "marginal M v1 = Inr q1" "sample M q1 sample_key [17] = Inr s1"
      and st1: "st1 = (expand_last s1, getitem_last0, AList.update 1 v1 [])"
    unfolding names by auto
  from b2' have b2: "layer_body M FLAGS sample_key kwargs 2
                       (expand_last s1, getitem_last0, AList.update 1 v1 []) = Inr st"
    by (auto simp: bind_Inr_iff st1)
  from layer_body_Inr [OF b2] obtain kf2 iv2 v2 q2 s2 where
    l2: "RBFKernelProvider M (expand_last s1) ''kernel_fun_2''
           (kwargs_get kwargs ''kernel_fun_2_kwargs'') = Inr kf2"
      "InducingPointsProvider M (expand_last s1) kf2 ''inducing_var_2'' (num_inducing_points FLAGS)
         True (kwargs_get kwargs ''inducing_var_2_kwargs'') = Inr iv2"
      "SVGPProvider M (expand_last s1) getitem_last0 kf2 iv2 ''vgp_2'' = Inr v2"
      "marginal M v2 = Inr q2" "sample M q2 sample_key [17] = Inr s2"
      and st: "st = (expand_last s2, getitem_last0, AList.update 2 v2 (AList.update 1 v1 []))"
    unfolding names by auto
  from fin have "LikelihoodProvider_apply (softplus M) (module_params M ''loglik'') (expand_last s2) = Inr loglik"
    and "vgps = [(1, v1), (2, v2)]"
    by (auto simp: st bind_Inr_iff)
  with l1 l2 show ?thesis by blast
qed

lemma example_layer_1:
  "layer_body example_modules example_flags 7 [] 1 (example_x, zero_mean, [])
     = Inr (expand_last (full [17, 1] 7), getitem_last0, [(1, (''vgp_1'', example_x, zeros [1]))])"
  by (simp add: layer_body_def kwargs_get_def keyword_call_def example_modules_def bind_def
      str_nat_digit zero_mean_def example_x_def zeros_def)

lemma example_layer_2:
  "layer_body example_modules example_flags 7 [] 2
       (expand_last (full [17, 1] 7), getitem_last0, [(1, (''vgp_1'', example_x, zeros [1]))])
     = Inr (expand_last (full [17, 17, 1] 7), getitem_last0,
            [(1, (''vgp_1'', example_x, zeros [1])),
             (2, (''vgp_2'', expand_last (full [17, 1] 7), full [17, 1] 7))])"
  by (simp add: layer_body_def kwargs_get_def keyword_call_def example_modules_def bind_def
      str_nat_digit getitem_last0_expand_last wf_array_full)

lemma example_loglik:
  "LikelihoodProvider_apply (softplus example_modules) (module_params example_modules ''loglik'')
       (expand_last (full [17, 17, 1] 7))
     = Inr (MultivariateNormalDiag (full [17, 17, 1] 7) (full [17, 17, 1] 3))"
proof -
  have p: "param (module_params example_modules ''loglik'') ''observation_noise_scale'' [1]
             = Inr \<lparr>shape = [1], data = [2]\<rparr>"
    by (simp add: example_modules_def param_def wf_array_def)
  have g: "getitem_last0 (expand_last (full [17, 17, 1] (7 :: int))) = Inr (full [17, 17, 1] 7)"
    by (simp add: getitem_last0_expand_last wf_array_full)
  have u: "\<And>a::int. 1 * a = a" by simp
  from LikelihoodProvider_apply_value [OF p g u, of "softplus example_modules"]
  show ?thesis by (simp add: example_modules_def)
qed

lemma example_run:
  "DeepGPModel_apply example_modules example_flags example_x 7 []
     = Inr (MultivariateNormalDiag (full [17, 17, 1] 7) (full [17, 17, 1] 3),
            [(1, (''vgp_1'', example_x, zeros [1])),
             (2, (''vgp_2'', expand_last (full [17, 1] 7), full [17, 1] 7))])"
  unfolding DeepGPModel_apply_def layers_1_2
  using example_layer_1 example_layer_2 example_loglik by (simp add: bind_def)

text \<open>
  C2. In a call of \<^verbatim>\<open>DeepGPModel.apply\<close> that returns, the first layer's \<^verbatim>\<open>SVGPProvider\<close> was
  given a mean function that maps every array \<open>a\<close> to the zeros of shape \<^verbatim>\<open>a.shape[:-1]\<close>, and
  the second (the only later) layer's a mean function that maps every \<open>a\<close> to \<^verbatim>\<open>a[..., 0]\<close>.
\<close>

theorem DeepGPModel_mean_functions:
  assumes "DeepGPModel_apply M FLAGS x sample_key kwargs = Inr (loglik, vgps)"
  shows "\<exists>mf1 mf2 x2 kf1 iv1 kf2 iv2 v1 v2.
           vgps = [(1, v1), (2, v2)] \<and>
           SVGPProvider M x mf1 kf1 iv1 ''vgp_1'' = Inr v1 \<and>
           SVGPProvider M x2 mf2 kf2 iv2 ''vgp_2'' = Inr v2 \<and>
           (\<forall>a. mf1 a = Inr (zeros (butlast (shape a)))) \<and>
           (\<forall>a. mf2 a = getitem_last0 a)"
proof -
  from DeepGPModel_apply_Inr [OF assms] obtain kf1 iv1 v1 s1 kf2 iv2 v2 where
    "SVGPProvider M x zero_mean kf1 iv1 ''vgp_1'' = Inr v1"
    "SVGPProvider M (expand_last s1) getitem_last0 kf2 iv2 ''vgp_2'' = Inr v2"
    "vgps = [(1, v1), (2, v2)]"
    by blast
  moreover have "\<forall>a::'a ndarray. zero_mean a = Inr (zeros (butlast (shape a)))"
    by (simp add: zero_mean_def)
  ultimately show ?thesis by blast
qed

theorem DeepGPModel_mean_functions_witness:
  "DeepGPModel_apply example_modules example_flags example_x 7 []
     = Inr (MultivariateNormalDiag (full [17, 17, 1] 7) (full [17, 17, 1] 3),
            [(1, (''vgp_1'', example_x, zeros [1])),
             (2, (''vgp_2'', expand_last (full [17, 1] 7), full [17, 1] 7))]) \<and>
   (\<exists>mf1 mf2 x2 kf1 iv1 kf2 iv2.
      SVGPProvider example_modules example_x mf1 kf1 iv1 ''vgp_1''
        = Inr (''vgp_1'', example_x, zeros [1]) \<and>
      SVGPProvider example_modules x2 mf2 kf2 iv2 ''vgp_2''
        = Inr (''vgp_2'', expand_last (full [17, 1] 7), full [17, 1] 7) \<and>
      (\<forall>a. mf1 a = Inr (zeros (butlast (shape a)))) \<and>
      (\<forall>a. mf2 a = getitem_last0 a))"
  using DeepGPModel_mean_functions [OF example_run] example_run by simp

text \<open>
  C3. In a call of \<^verbatim>\<open>DeepGPModel.apply\<close> that returns, the index points of the second layer
  (of its kernel, its inducing variable and its variational GP) are the sample drawn from
  the first layer's marginal with the supplied key and sample shape \<open>(17,)\<close>, with an axis of
  size 1 appended. The sample is the value of \<^verbatim>\<open>sample\<close> at that marginal and that key and
  nothing else.
\<close>

theorem DeepGPModel_layer_input_is_sample:
  assumes "DeepGPModel_apply M FLAGS x sample_key kwargs = Inr (loglik, vgps)"
  shows "\<exists>mf1 kf1 iv1 v1 q1 s1 x2 mf2 kf2 iv2 v2.
           vgps = [(1, v1), (2, v2)] \<and>
           SVGPProvider M x mf1 kf1 iv1 ''vgp_1'' = Inr v1 \<and>
           marginal M v1 = Inr q1 \<and>
           sample M q1 sample_key [17] = Inr s1 \<and>
           x2 = \<lparr>shape = shape s1 @ [1], data = data s1\<rparr> \<and>
           RBFKernelProvider M x2 ''kernel_fun_2'' (kwargs_get kwargs ''kernel_fun_2_kwargs'') = Inr kf2 \<and>
           InducingPointsProvider M x2 kf2 ''inducing_var_2'' (num_inducing_points FLAGS) True
             (kwargs_get kwargs ''inducing_var_2_kwargs'') = Inr iv2 \<and>
           SVGPProvider M x2 mf2 kf2 iv2 ''vgp_2'' = Inr v2"
proof -
  from DeepGPModel_apply_Inr [OF assms] obtain kf1 iv1 v1 q1 s1 kf2 iv2 v2 where
    "SVGPProvider M x zero_mean kf1 iv1 ''vgp_1'' = Inr v1"
    "marginal M v1 = Inr q1" "sample M q1 sample_key [17] = Inr s1"
    "RBFKernelProvider M (expand_last s1) ''kernel_fun_2''
       (kwargs_get kwargs ''kernel_fun_2_kwargs'') = Inr kf2"
    "InducingPointsProvider M (expand_last s1) kf2 ''inducing_var_2'' (num_inducing_points FLAGS)
       True (kwargs_get kwargs ''inducing_var_2_kwargs'') = Inr iv2"
    "SVGPProvider M (expand_last s1) getitem_last0 kf2 iv2 ''vgp_2'' = Inr v2"
    "vgps = [(1, v1), (2, v2)]"
    by blast
  then show ?thesis
    unfolding expand_last_def by blast
qed

theorem DeepGPModel_layer_input_is_sample_witness:
  "DeepGPModel_apply example_modules example_flags example_x 7 []
     = Inr (MultivariateNormalDiag (full [17, 17, 1] 7) (full [17, 17, 1] 3),
            [(1, (''vgp_1'', example_x, zeros [1])),
             (2, (''vgp_2'', expand_last (full [17, 1] 7), full [17, 1] 7))]) \<and>
   (\<exists>mf1 kf1 iv1 q1 s1 x2 mf2 kf2 iv2.
      SVGPProvider example_modules example_x mf1 kf1 iv1 ''vgp_1''
        = Inr (''vgp_1'', example_x, zeros [1]) \<and>
      marginal example_modules (''vgp_1'', example_x, zeros [1]) = Inr q1 \<and>
      sample example_modules q1 7 [17] = Inr s1 \<and>
      x2 = \<lparr>shape = shape s1 @ [1], data = data s1\<rparr> \<and>
      RBFKernelProvider example_modules x2 ''kernel_fun_2'' [] = Inr kf2 \<and>
      InducingPointsProvider example_modules x2 kf2 ''inducing_var_2'' 10 True [] = Inr iv2 \<and>
      SVGPProvider example_modules x2 mf2 kf2 iv2 ''vgp_2''
        = Inr (''vgp_2'', expand_last (full [17, 1] 7), full [17, 1] 7))"
  using DeepGPModel_layer_input_is_sample [OF example_run] example_run
  by (simp add: kwargs_get_def example_flags_def)

text \<open>
  C10. In a call of \<^verbatim>\<open>DeepGPModel.apply\<close> that returns, the sample drawn from the first
  layer's marginal and the sample drawn from the second layer's marginal (which the
  likelihood is built on) are both drawn with the key the call was given.
\<close>

theorem DeepGPModel_one_sample_key:
  assumes "DeepGPModel_apply M FLAGS x sample_key kwargs = Inr (loglik, vgps)"
  shows "\<exists>v1 q1 s1 v2 q2 s2.
           vgps = [(1, v1), (2, v2)] \<and>
           marginal M v1 = Inr q1 \<and> sample M q1 sample_key [17] = Inr s1 \<and>
           marginal M v2 = Inr q2 \<and> sample M q2 sample_key [17] = Inr s2 \<and>
           LikelihoodProvider_apply (softplus M) (module_params M ''loglik'') (expand_last s2)
             = Inr loglik"
  using DeepGPModel_apply_Inr [OF assms] by blast

theorem DeepGPModel_one_sample_key_witness:
  "DeepGPModel_apply example_modules example_flags example_x 7 []
     = Inr (MultivariateNormalDiag (full [17, 17, 1] 7) (full [17, 17, 1] 3),
            [(1, (''vgp_1'', example_x, zeros [1])),
             (2, (''vgp_2'', expand_last (full [17, 1] 7), full [17, 1] 7))]) \<and>
   (\<exists>q1 s1 q2 s2.
      marginal example_modules (''vgp_1'', example_x, zeros [1]) = Inr q1 \<and>
      sample example_modules q1 7 [17] = Inr s1 \<and>
      marginal example_modules (''vgp_2'', expand_last (full [17, 1] 7), full [17, 1] 7) = Inr q2 \<and>
      sample example_modules q2 7 [17] = Inr s2 \<and>
      LikelihoodProvider_apply (softplus example_modules) (module_params example_modules ''loglik'')
          (expand_last s2)
        = Inr (MultivariateNormalDiag (full [17, 17, 1] 7) (full [17, 17, 1] 3)))"
  using DeepGPModel_one_sample_key [OF example_run] example_run by simp

subsection \<open>The training objective\<close>

lemma comprehension_two:
  "comprehension f [a, b] = Inr vs \<longleftrightarrow> (\<exists>va vb. f a = Inr va \<and> f b = Inr vb \<and> vs = [va, vb])"
  by (auto simp: bind_Inr_iff)

lemma loss_fn_Inr:
  assumes "loss_fn F FLAGS batch sample_key model = Inr loss"
  shows "\<exists>ell v1 v2 kl1 kl2 lp.
           DeepGPModel_apply (model_modules F model) FLAGS (batch_index_points batch) sample_key []
             = Inr (ell, [(1, v1), (2, v2)]) \<and>
           prior_kl (model_modules F model) v1 = Inr kl1 \<and>
           prior_kl (model_modules F model) v2 = Inr kl2 \<and>
           shape kl1 = shape kl2 \<and>
           log_prob (model_modules F model) ell (batch_y batch) = Inr lp \<and>
           loss = map_array (\<lambda>v. - v + reduce_sum F (data kl1 @ data kl2)) lp"
proof -
  let ?M = "model_modules F model"
  from assms obtain ell vgps kls kl lp where
    run: "DeepGPModel_apply ?M FLAGS (batch_index_points batch) sample_key [] = Inr (ell, vgps)"
    and kls: "comprehension (\<lambda>entry. prior_kl ?M (snd entry)) vgps = Inr kls"
    and kl: "jnp_sum (reduce_sum F) kls = Inr kl"
    and lp: "log_prob ?M ell (batch_y batch) = Inr lp"
    and loss: "loss = map_array (\<lambda>v. - v + kl) lp"
    by (auto simp: loss_fn_def bind_Inr_iff split: prod.splits)
  from DeepGPModel_apply_Inr [OF run] obtain v1 v2 where vgps: "vgps = [(1, v1), (2, v2)]"
    by blast
  from kls obtain kl1 kl2 where
    k: "prior_kl ?M v1 = Inr kl1" "prior_kl ?M v2 = Inr kl2" "kls = [kl1, kl2]"
    unfolding vgps comprehension_two by auto
  from kl have "shape kl1 = shape kl2" "kl = reduce_sum F (data kl1 @ data kl2)"
    unfolding k(3) by (auto simp: jnp_sum_def split: if_splits)
  with run vgps k lp loss show ?thesis by blast
qed

text \<open>
  What the sources decide about the loss of \<^verbatim>\<open>train_step\<close>: when \<^verbatim>\<open>train_step\<close> returns, the
  loss it reports is zero-dimensional, and it is the negated \<^verbatim>\<open>log_prob\<close> of \<open>y\<close> under the
  likelihood that \<^verbatim>\<open>DeepGPModel\<close> builds on the last layer's sample, plus the sum of
  \<^verbatim>\<open>prior_kl()\<close> over the variational GPs of both layers. Whether \<^verbatim>\<open>log_prob\<close> returns a
  scalar, and how it reduces over the 17 samples that the mean of the likelihood carries,
  is decided in the module \<^verbatim>\<open>distributions\<close>, which is not among the sources.
\<close>

lemma train_step_Inr:
  assumes "train_step F FLAGS optimizer batch sample_key = Inr (optimizer', metrics)"
  shows "\<exists>ell v1 v2 kl1 kl2 lp loss.
           DeepGPModel_apply (model_modules F (target F optimizer)) FLAGS (batch_index_points batch)
               sample_key []
             = Inr (ell, [(1, v1), (2, v2)]) \<and>
           prior_kl (model_modules F (target F optimizer)) v1 = Inr kl1 \<and>
           prior_kl (model_modules F (target F optimizer)) v2 = Inr kl2 \<and>
           log_prob (model_modules F (target F optimizer)) ell (batch_y batch) = Inr lp \<and>
           metrics = [(''loss'', loss)] \<and>
           loss = map_array (\<lambda>v. - v + reduce_sum F (data kl1 @ data kl2)) lp \<and>
           shape loss = []"
proof -
  from assms obtain loss g where
    vg: "value_and_grad F (loss_fn F FLAGS batch sample_key) (target F optimizer) = Inr (loss, g)"
    and m: "metrics = [(''loss'', loss)]"
    by (auto simp: train_step_def bind_Inr_iff Let_def split: prod.splits)
  from vg have l: "loss_fn F FLAGS batch sample_key (target F optimizer) = Inr loss"
    and sh: "shape loss = []"
    by (auto simp: value_and_grad_def bind_Inr_iff split: if_splits)
  from loss_fn_Inr [OF l] m sh show ?thesis by blast
qed

lemma example_train_step:
  "train_step example_library example_flags opt example_ds 7
     = Inr (Suc opt, [(''loss'', \<lparr>shape = [], data = [6]\<rparr>)])"
  using example_run
  by (simp add: train_step_def value_and_grad_def loss_fn_def example_library_def example_ds_def
      bind_def jnp_sum_def map_array_def example_modules_def)

subsection \<open>The keys of the training loop\<close>

lemma epoch_key_Suc: "epoch_key F (snd (split F k)) i = epoch_key F k (Suc i)"
  using funpow_swap1 [of "\<lambda>k. snd (split F k)" i k] by (simp add: epoch_key_def)

lemma upt_from_1: "[1..<Suc (Suc n)] = 1 # map Suc [1..<Suc n]"
proof -
  have "[Suc 0..<Suc (Suc n)] = Suc 0 # [Suc (Suc 0)..<Suc (Suc n)]"
    by (rule upt_conv_Cons) simp
  moreover have "map Suc [Suc 0..<Suc n] = [Suc (Suc 0)..<Suc (Suc n)]"
    by (rule map_Suc_upt)
  ultimately show ?thesis by (simp only: One_nat_def)
qed

lemma epoch_keys_Cons:
  "epoch_keys F key0 (e # es) = (e, snd (split F key0)) # epoch_keys F (snd (split F key0)) es"
proof -
  have "epoch_key F key0 1 = snd (split F key0)"
    by (simp add: epoch_key_def)
  moreover have "map (epoch_key F key0) (map Suc [1..<Suc (length es)])
                   = map (epoch_key F (snd (split F key0))) [1..<Suc (length es)]"
    unfolding map_map comp_def epoch_key_Suc ..
  ultimately show ?thesis
    unfolding epoch_keys_def length_Cons upt_from_1 list.map zip_Cons_Cons by (simp only:)
qed

lemma epoch_body_snd:
  "epoch_body F FLAGS train_ds epoch (optimizer, key0, logged) =
     bind (train_epoch F FLAGS optimizer train_ds epoch (snd (split F key0))) (\<lambda>res.
       case res of ((optimizer, metrics), line) \<Rightarrow>
         Inr (optimizer, snd (split F key0), logged @ [line]))"
  by (simp add: epoch_body_def split: prod.splits)

text \<open>
  The loop of \<open>train\<close>, from any optimizer and any key, is the loop in which epoch number
  \<open>i\<close> runs with the key reached from the key before the loop by splitting \<open>i\<close> times and
  taking the second half each time: the keys depend on the key before the loop only.
\<close>

lemma epoch_loop_keys:
  "for_each (epoch_body F FLAGS train_ds) epochs (optimizer, key0, logged) =
     bind (for_each (keyed_epoch_body F FLAGS train_ds) (epoch_keys F key0 epochs) (optimizer, logged))
       (\<lambda>st. case st of (optimizer, logged) \<Rightarrow>
          Inr (optimizer, epoch_key F key0 (length epochs), logged))"
proof (induction epochs arbitrary: optimizer key0 logged)
  case Nil
  then show ?case by (simp add: epoch_keys_def epoch_key_def bind_def)
next
  case (Cons e es)
  let ?k1 = "snd (split F key0)"
  show ?case
  proof (cases "train_epoch F FLAGS optimizer train_ds e ?k1")
    case (Inl err)
    then show ?thesis
      by (simp add: epoch_keys_Cons epoch_body_snd keyed_epoch_body_def bind_def)
  next
    case (Inr res)
    obtain optimizer' metrics line where res: "res = ((optimizer', metrics), line)"
      by (metis prod.exhaust)
    have "for_each (epoch_body F FLAGS train_ds) (e # es) (optimizer, key0, logged)
            = for_each (epoch_body F FLAGS train_ds) es (optimizer', ?k1, logged @ [line])"
      using Inr res by (simp add: epoch_body_snd bind_def)
    moreover have "for_each (keyed_epoch_body F FLAGS train_ds) (epoch_keys F key0 (e # es)) (optimizer, logged)
            = for_each (keyed_epoch_body F FLAGS train_ds) (epoch_keys F ?k1 es) (optimizer', logged @ [line])"
      using Inr res by (simp add: epoch_keys_Cons keyed_epoch_body_def bind_def)
    ultimately show ?thesis
      by (simp add: Cons.IH epoch_key_Suc)
  qed
qed

subsection \<open>What a run of \<^verbatim>\<open>train\<close> does\<close>

lemma bind_Inl [simp]: "bind (Inl e) f = Inl e"
  by (simp add: bind_def)

lemma bind_Inr [simp]: "bind (Inr v) f = f v"
  by (simp add: bind_def)









subsection \<open>The dataset\<close>

lemma linspace_25_nth:
  "i < 25 \<Longrightarrow> linspace (- 1.5) 1.5 25 ! i = - 1.5 + real i / 8"
  by (simp add: linspace_def)

lemma length_linspace_25: "length (linspace a b 25) = 25"
  by (simp add: linspace_def)

lemma step_fun_sgn: "x \<noteq> 0 \<Longrightarrow> step_fun x = sgn x"
  by (simp add: step_fun_def sgn_real_def)

text \<open>
  C7, as the code has it. The dataset of \<^verbatim>\<open>get_datasets\<close> has the 25 index points
  \<open>-1.5 + i/8\<close> (\<open>i = 0, ..., 24\<close>), evenly spaced from \<open>-1.5\<close> to \<open>1.5\<close>, as an array of shape
  \<open>(25, 1)\<close>, and the targets \<open>step_fun(x) + 0.1 z\<close>, where \<open>z\<close> is the standard-normal
  draw for the point (so the noise has variance 0.01). \<open>step_fun\<close> is the sign at every
  point but 0, where it is \<open>-1\<close>.
\<close>

theorem get_datasets_targets:
  assumes "shape (normal (PRNGKey' 123) [25]) = [25]" and "wf_array (normal (PRNGKey' 123) [25])"
  shows "shape (batch_index_points (get_datasets PRNGKey' normal)) = [25, 1] \<and>
         shape (batch_y (get_datasets PRNGKey' normal)) = [25] \<and>
         (\<forall>i<25.
            data (batch_index_points (get_datasets PRNGKey' normal)) ! i = - 1.5 + real i / 8 \<and>
            data (batch_y (get_datasets PRNGKey' normal)) ! i
              = step_fun (data (batch_index_points (get_datasets PRNGKey' normal)) ! i)
                + 0.1 * data (normal (PRNGKey' 123) [25]) ! i) \<and>
         (\<forall>x. x \<noteq> 0 \<longrightarrow> step_fun x = sgn x) \<and> step_fun 0 = - 1"
proof -
  let ?ds = "get_datasets PRNGKey' normal"
  let ?z = "normal (PRNGKey' 123) [25]"
  have len: "length (data ?z) = 25"
    using assms by (simp add: wf_array_def)
  have xs: "data (batch_index_points ?ds) = linspace (- 1.5) 1.5 25"
    by (simp add: get_datasets_def expand_last_def)
  have ys: "data (batch_y ?ds)
              = map2 (+) (map step_fun (linspace (- 1.5) 1.5 25)) (map (\<lambda>z. 0.1 * z) (data ?z))"
    by (simp add: get_datasets_def add_same_shape_def map_array_def)
  have "data (batch_index_points ?ds) ! i = - 1.5 + real i / 8 \<and>
        data (batch_y ?ds) ! i = step_fun (data (batch_index_points ?ds) ! i) + 0.1 * data ?z ! i"
    if "i < 25" for i
    unfolding xs ys using that len linspace_25_nth [OF that] by (simp add: length_linspace_25)
  then have "\<forall>i<25.
            data (batch_index_points ?ds) ! i = - 1.5 + real i / 8 \<and>
            data (batch_y ?ds) ! i
              = step_fun (data (batch_index_points ?ds) ! i) + 0.1 * data ?z ! i"
    by blast
  moreover have "shape (batch_index_points ?ds) = [25, 1]" "shape (batch_y ?ds) = [25]"
    by (simp_all add: get_datasets_def add_same_shape_def length_linspace_25)
  moreover have "\<forall>x. x \<noteq> 0 \<longrightarrow> step_fun x = sgn x"
    by (simp add: step_fun_sgn)
  moreover have "step_fun 0 = - 1"
    by (simp add: step_fun_def)
  ultimately show ?thesis by blast
qed

theorem get_datasets_targets_witness:
  "shape (full [25] (1 :: real)) = [25] \<and> wf_array (full [25] (1 :: real)) \<and>
   data (batch_index_points (get_datasets (\<lambda>seed. seed) (\<lambda>key shp. full shp 1))) ! 3 = - 9 / 8 \<and>
   data (batch_y (get_datasets (\<lambda>seed. seed) (\<lambda>key shp. full shp 1))) ! 3 = - 9 / 10 \<and>
   data (batch_index_points (get_datasets (\<lambda>seed. seed) (\<lambda>key shp. full shp 1))) ! 20 = 1 \<and>
   data (batch_y (get_datasets (\<lambda>seed. seed) (\<lambda>key shp. full shp 1))) ! 20 = 11 / 10"
proof -
  have h: "shape (full [25] (1 :: real)) = [25]" "wf_array (full [25] (1 :: real))"
    by (simp_all add: wf_array_full)
  have z: "data (full [25] (1 :: real)) ! 3 = 1" "data (full [25] (1 :: real)) ! 20 = 1"
    by (simp_all add: full_def)
  from get_datasets_targets [of "\<lambda>key shp. full shp 1" "\<lambda>seed. seed", OF h]
  have "\<forall>i<25.
          data (batch_index_points (get_datasets (\<lambda>seed. seed) (\<lambda>key shp. full shp 1))) ! i
            = - 1.5 + real i / 8 \<and>
          data (batch_y (get_datasets (\<lambda>seed. seed) (\<lambda>key shp. full shp 1))) ! i
            = step_fun (data (batch_index_points (get_datasets (\<lambda>seed. seed) (\<lambda>key shp. full shp 1))) ! i)
              + 0.1 * data (full [25] (1 :: real)) ! i"
    by blast
  then have
    "data (batch_index_points (get_datasets (\<lambda>seed. seed) (\<lambda>key shp. full shp 1))) ! 3 = - 1.5 + real 3 / 8 \<and>
     data (batch_y (get_datasets (\<lambda>seed. seed) (\<lambda>key shp. full shp 1))) ! 3
       = step_fun (data (batch_index_points (get_datasets (\<lambda>seed. seed) (\<lambda>key shp. full shp 1))) ! 3)
         + 0.1 * data (full [25] (1 :: real)) ! 3"
    "data (batch_index_points (get_datasets (\<lambda>seed. seed) (\<lambda>key shp. full shp 1))) ! 20 = - 1.5 + real 20 / 8 \<and>
     data (batch_y (get_datasets (\<lambda>seed. seed) (\<lambda>key shp. full shp 1))) ! 20
       = step_fun (data (batch_index_points (get_datasets (\<lambda>seed. seed) (\<lambda>key shp. full shp 1))) ! 20)
         + 0.1 * data (full [25] (1 :: real)) ! 20"
    by simp_all
  with h z show ?thesis
    by (simp add: step_fun_def)
qed

text \<open>
  C7, as the claim has it, fails at the index point 0 (the thirteenth of the 25): with
  noise 0 the target there is \<open>-1\<close>, and \<open>sign(0)\<close> plus the noise is 0.
\<close>

theorem get_datasets_target_at_zero:
  "data (batch_index_points (get_datasets (\<lambda>seed. seed) (\<lambda>key shp. zeros shp))) ! 12 = 0 \<and>
   data (batch_y (get_datasets (\<lambda>seed. seed) (\<lambda>key shp. zeros shp))) ! 12 = - 1 \<and>
   sgn (data (batch_index_points (get_datasets (\<lambda>seed. seed) (\<lambda>key shp. zeros shp))) ! 12)
     + 0.1 * data (zeros [25] :: real ndarray) ! 12 = 0"
proof -
  let ?ds = "get_datasets (\<lambda>seed. seed :: nat) (\<lambda>key shp. zeros shp)"
  have l: "linspace (- 1.5) 1.5 25 ! 12 = 0"
    using linspace_25_nth [of 12] by simp
  have x: "data (batch_index_points ?ds) ! 12 = 0"
    using l by (simp add: get_datasets_def expand_last_def)
  have z: "data (zeros [25] :: real ndarray) ! 12 = 0"
    by (simp add: zeros_def full_def)
  have "data (batch_y ?ds) ! 12 = step_fun (linspace (- 1.5) 1.5 25 ! 12) + 0.1 * data (zeros [25] :: real ndarray) ! 12"
    by (simp add: get_datasets_def add_same_shape_def map_array_def length_linspace_25 zeros_def full_def)
  then have y: "data (batch_y ?ds) ! 12 = - 1"
    using l by (simp add: z step_fun_def)
  from x y z show ?thesis by simp
qed

end
